theory Spec2Isabelle
  imports Main "HOL-Library.AList" "HOL-Library.Sublist"
begin

section \<open>The PDF writer of undrp (src/undrp/pdf.py)\<close>

text \<open>
  The writer is a Python class whose methods mutate the object and may raise. The model
  passes the object explicitly: a method is a function from the state before the call to
  a result and the state after it. The state is returned on failure as well, since a
  method that raises keeps the assignments it made before the raise.
\<close>

subsection \<open>Values, errors and the destination\<close>

text \<open>
  \<open>RuntimeError\<close> is raised by \<open>_write\<close> on a writer without a destination,
  \<open>KeyError\<close> by the lookups in \<open>MODE2COLOR_SPACE\<close> and \<open>FORMAT2FILTER\<close>,
  \<open>UnicodeEncodeError\<close> by \<open>str.encode("ascii")\<close>. \<open>ValueError\<close> is what a
  closed file object answers to \<open>write\<close>, \<open>UnidentifiedImageError\<close> what the image
  decoder answers to bytes it cannot read.
\<close>

datatype error =
    RuntimeError string
  | KeyError string
  | ValueError string
  | UnicodeEncodeError
  | UnidentifiedImageError
  | NameError string

text \<open>
  The arguments \<open>_write\<close> receives in the source: \<open>bytes\<close>, \<open>int\<close> and \<open>str\<close>.
  A \<open>str\<close> is modelled with one \<open>char\<close> per code point (code points below 256).
\<close>

datatype pyval = PyBytes string | PyInt int | PyStr string

text \<open>
  The destination is an object outside the writer: a file-like object that collects the
  bytes it is given and can be closed. The writer holds a reference to it in
  \<open>self.out\<close> and drops the reference (\<open>self.out = None\<close>) at close; the object
  itself and the bytes it received remain.
\<close>

record sink =
  sink_data :: string
  sink_closed :: bool

text \<open>
  The fields of \<open>PdfWriter\<close>. \<open>out\<close> is \<open>True\<close> while \<open>self.out\<close> refers to the
  destination and \<open>False\<close> when \<open>self.out is None\<close>; \<open>id_stream\<close> is the next value
  of \<open>itertools.count(1)\<close>; \<open>xrefs\<close> is the dictionary \<open>_xrefs\<close> in insertion order.
  \<open>first\<close> holds the local variable \<open>first\<close> of every call of \<open>start_array\<close>
  (a closure cell shared with the element helper), addressed by the number of the call,
  and \<open>frames\<close> counts these calls.
\<close>

record PdfWriter =
  sink :: sink
  out :: bool
  owned :: bool
  id_stream :: int
  page_ids :: "int list"
  page_tree_root_id :: "int option"
  pos :: nat
  xrefs :: "(int \<times> nat) list"
  first :: "nat \<Rightarrow> bool"
  frames :: nat

definition PdfWriter_init :: "sink \<Rightarrow> bool \<Rightarrow> bool \<Rightarrow> PdfWriter" where
  "PdfWriter_init dest has_out own =
     \<lparr> sink = dest, out = has_out, owned = own, id_stream = 1, page_ids = [],
       page_tree_root_id = None, pos = 0, xrefs = [], first = (\<lambda>_. False), frames = 0 \<rparr>"

subsection \<open>Statements that may raise\<close>

type_synonym 'a action = "PdfWriter \<Rightarrow> (error + 'a) \<times> PdfWriter"

definition ret :: "'a \<Rightarrow> 'a action" where
  "ret x s = (Inr x, s)"

definition raise :: "error \<Rightarrow> 'a action" where
  "raise e s = (Inl e, s)"

text \<open>Sequencing: a raise in the first statement skips the rest.\<close>

definition bind :: "'a action \<Rightarrow> ('a \<Rightarrow> 'b action) \<Rightarrow> 'b action" where
  "bind m f s = (case m s of (Inl e, s') \<Rightarrow> (Inl e, s') | (Inr x, s') \<Rightarrow> f x s')"

text \<open>A pure function that may raise, called as a statement.\<close>

definition lift :: "error + 'a \<Rightarrow> 'a action" where
  "lift r s = (r, s)"

definition gets :: "(PdfWriter \<Rightarrow> 'a) \<Rightarrow> 'a action" where
  "gets f s = (Inr (f s), s)"

definition modify :: "(PdfWriter \<Rightarrow> PdfWriter) \<Rightarrow> unit action" where
  "modify f s = (Inr (), f s)"

fun for_each :: "'a list \<Rightarrow> ('a \<Rightarrow> unit action) \<Rightarrow> unit action" where
  "for_each [] f = ret ()"
| "for_each (x # xs) f = bind (f x) (\<lambda>_. for_each xs f)"

subsection \<open>Formatting\<close>

definition digit :: "nat \<Rightarrow> char" where
  "digit n = ''0123456789'' ! n"

fun str_nat :: "nat \<Rightarrow> string" where
  "str_nat n = (if n < 10 then [digit n] else str_nat (n div 10) @ [digit (n mod 10)])"

declare str_nat.simps [simp del]

text \<open>\<open>str(i)\<close> for an \<open>int\<close>.\<close>

definition str_int :: "int \<Rightarrow> string" where
  "str_int i = (if i < 0 then CHR ''-'' # str_nat (nat (- i)) else str_nat (nat i))"

text \<open>\<open>"{:0wd}".format(n)\<close> for a non-negative \<open>n\<close>.\<close>

definition zero_pad :: "nat \<Rightarrow> nat \<Rightarrow> string" where
  "zero_pad w n = replicate (w - length (str_nat n)) CHR ''0'' @ str_nat n"

definition is_ascii :: "string \<Rightarrow> bool" where
  "is_ascii cs = list_all (\<lambda>c. (of_char c :: nat) < 128) cs"

definition as_ascii :: "pyval \<Rightarrow> error + string" where
  "as_ascii obj =
     (case obj of
        PyBytes b \<Rightarrow> Inr b
      | PyInt i \<Rightarrow> Inr (str_int i)
      | PyStr cs \<Rightarrow> if is_ascii cs then Inr cs else Inl UnicodeEncodeError)"

definition CONTENT_STREAM_TEMPLATE :: "int \<Rightarrow> int \<Rightarrow> string" where
  "CONTENT_STREAM_TEMPLATE width height =
     ''q\<newline>'' @ str_int width @ '' 0 0 '' @ str_int height @ '' 0 0 cm\<newline>/Img Do\<newline>Q''"

definition FORMAT2FILTER :: "(string \<times> string) list" where
  "FORMAT2FILTER = [(''JPEG'', ''/DCTDecode'')]"

definition MODE2COLOR_SPACE :: "(string \<times> string) list" where
  "MODE2COLOR_SPACE = [(''L'', ''/DeviceGray''), (''RGB'', ''/DeviceRGB'')]"

text \<open>\<open>d[k]\<close> on a dictionary.\<close>

definition getitem :: "(string \<times> 'v) list \<Rightarrow> string \<Rightarrow> error + 'v" where
  "getitem d k = (case map_of d k of None \<Rightarrow> Inl (KeyError k) | Some v \<Rightarrow> Inr v)"

subsection \<open>Writing bytes, allocating ids\<close>

text \<open>
  \<open>_write\<close>: refuses when \<open>self.out is None\<close>, converts its argument with
  \<open>as_ascii\<close>, hands the bytes to the destination and advances \<open>_pos\<close>.
\<close>

definition write' :: "pyval \<Rightarrow> unit action" where
  "write' bs s =
     (if \<not> out s then (Inl (RuntimeError ''PDF writer is closed''), s)
      else case as_ascii bs of
          Inl e \<Rightarrow> (Inl e, s)
        | Inr b \<Rightarrow>
            if sink_closed (sink s) then (Inl (ValueError ''I/O operation on closed file''), s)
            else (Inr (), s\<lparr>sink := (sink s)\<lparr>sink_data := sink_data (sink s) @ b\<rparr>,
                            pos := pos s + length b\<rparr>))"

definition write_header :: "unit action" where
  "write_header s = (if pos s \<noteq> 0 then (Inr (), s) else write' (PyBytes ''%PDF-1.7\<newline>'') s)"

definition next_object_id :: "int action" where
  "next_object_id s = (Inr (id_stream s), s\<lparr>id_stream := id_stream s + 1\<rparr>)"

definition write_ref :: "int \<Rightarrow> unit action" where
  "write_ref i =
     bind (lift (as_ascii (PyInt i))) (\<lambda>b.
     bind (write' (PyBytes b)) (\<lambda>_.
     write' (PyBytes '' 0 R'')))"

subsection \<open>The scopes\<close>

text \<open>
  Each scope is a generator function under \<open>@contextmanager\<close>: the statements before
  \<open>yield\<close> run when the \<open>with\<close> statement is entered, the block of the \<open>with\<close>
  statement runs at the \<open>yield\<close>, and the statements after \<open>yield\<close> run when the block is
  left without an exception (by reaching its end or by \<open>return\<close>, \<open>break\<close> or
  \<open>continue\<close>). When the block raises, \<open>contextlib\<close> throws the exception into the
  generator at the \<open>yield\<close>; none of the generators has a \<open>try\<close> around it, so the
  statements after \<open>yield\<close> do not run and the exception goes on to the caller. The
  scope is therefore the sequence of the three parts, the block being an argument; the
  value of the block stands for the way it was left and for what it assigned.
\<close>

definition start_array_element :: "nat \<Rightarrow> 'a action \<Rightarrow> 'a action" where
  "start_array_element c body =
     bind (gets (\<lambda>s. first s c)) (\<lambda>is_first.
     bind (if is_first then modify (\<lambda>s. s\<lparr>first := (first s)(c := False)\<rparr>)
           else write' (PyBytes '' '')) (\<lambda>_.
     body))"

definition start_array :: "((unit action \<Rightarrow> unit action) \<Rightarrow> 'a action) \<Rightarrow> 'a action" where
  "start_array body =
     bind write_header (\<lambda>_.
     bind (gets frames) (\<lambda>c.
     bind (modify (\<lambda>s. s\<lparr>first := (first s)(c := True), frames := c + 1\<rparr>)) (\<lambda>_.
     bind (write' (PyBytes ''['')) (\<lambda>_.
     bind (body (start_array_element c)) (\<lambda>r.
     bind (write' (PyBytes '']'')) (\<lambda>_.
     ret r))))))"

definition start_dict_entry :: "pyval \<Rightarrow> 'a action \<Rightarrow> 'a action" where
  "start_dict_entry key body =
     bind (write' (PyBytes ''/'')) (\<lambda>_.
     bind (write' key) (\<lambda>_.
     bind (write' (PyBytes '' '')) (\<lambda>_.
     bind body (\<lambda>r.
     bind (write' (PyBytes ''\<newline>'')) (\<lambda>_.
     ret r)))))"

definition start_dict :: "((pyval \<Rightarrow> unit action \<Rightarrow> unit action) \<Rightarrow> 'a action) \<Rightarrow> 'a action" where
  "start_dict body =
     bind write_header (\<lambda>_.
     bind (write' (PyBytes ''<<\<newline>'')) (\<lambda>_.
     bind (body start_dict_entry) (\<lambda>r.
     bind (write' (PyBytes ''>>\<newline>'')) (\<lambda>_.
     ret r))))"

definition start_object :: "int option \<Rightarrow> (int \<Rightarrow> 'a action) \<Rightarrow> 'a action" where
  "start_object oid body =
     bind write_header (\<lambda>_.
     bind (case oid of None \<Rightarrow> next_object_id | Some i \<Rightarrow> ret i) (\<lambda>id'.
     bind (modify (\<lambda>s. s\<lparr>xrefs := AList.update id' (pos s) (xrefs s)\<rparr>)) (\<lambda>_.
     bind (lift (as_ascii (PyInt id'))) (\<lambda>b.
     bind (write' (PyBytes b)) (\<lambda>_.
     bind (write' (PyBytes '' 0 obj\<newline>'')) (\<lambda>_.
     bind (body id') (\<lambda>r.
     bind (write' (PyBytes ''endobj\<newline>'')) (\<lambda>_.
     ret r))))))))"

definition start_stream :: "'a action \<Rightarrow> 'a action" where
  "start_stream body =
     bind write_header (\<lambda>_.
     bind (write' (PyBytes ''stream\<newline>'')) (\<lambda>_.
     bind body (\<lambda>r.
     bind (write' (PyBytes ''\<newline>endstream\<newline>'')) (\<lambda>_.
     ret r))))"

subsection \<open>Pages\<close>

text \<open>
  \<open>contents_id\<close> of \<open>write_page\<close> is one id or an iterable of ids (the test
  \<open>hasattr(contents_id, "__iter__")\<close>).
\<close>

datatype contents_ids = Single int | Several "int list"

text \<open>
  The value of a loop variable after \<open>for v in xs\<close>: the last element, or the value the
  variable had before when \<open>xs\<close> is empty. In \<open>write_page\<close> the loop over
  \<open>contents_id\<close> is written \<open>for id in contents_id\<close>, and \<open>id\<close> is also the
  variable that \<open>with self.start_object(id) as id\<close> bound and that \<open>return id\<close> reads.
\<close>

definition after_for :: "'a list \<Rightarrow> 'a \<Rightarrow> 'a" where
  "after_for xs v = (case xs of [] \<Rightarrow> v | _ # _ \<Rightarrow> last xs)"

definition write_page ::
  "int option \<Rightarrow> contents_ids option \<Rightarrow> (pyval \<times> pyval \<times> pyval \<times> pyval) option \<Rightarrow>
   int option \<Rightarrow> pyval option \<Rightarrow> int action" where
  "write_page oid contents_id media_box parent_id resources =
     bind write_header (\<lambda>_.
     bind (case parent_id of
             Some p \<Rightarrow> ret p
           | None \<Rightarrow>
               bind (gets page_tree_root_id) (\<lambda>root.
               bind (case root of
                       None \<Rightarrow> next_object_id
                     | Some r \<Rightarrow> if r \<noteq> 0 then ret r else next_object_id) (\<lambda>v.
               bind (modify (\<lambda>s. s\<lparr>page_tree_root_id := Some v\<rparr>)) (\<lambda>_.
               ret v)))) (\<lambda>parent_id'.
     start_object oid (\<lambda>id'.
       bind (modify (\<lambda>s. s\<lparr>page_ids := page_ids s @ [id']\<rparr>)) (\<lambda>_.
       bind (start_dict (\<lambda>start_dict_entry.
         bind (start_dict_entry (PyBytes ''Type'') (write' (PyBytes ''/Page''))) (\<lambda>_.
         bind (start_dict_entry (PyBytes ''Parent'') (write_ref parent_id')) (\<lambda>_.
         bind (case resources of
                 None \<Rightarrow> ret ()
               | Some r \<Rightarrow> start_dict_entry (PyBytes ''Resources'') (write' r)) (\<lambda>_.
         bind (case media_box of
                 None \<Rightarrow> ret ()
               | Some (ll_x, ll_y, ur_x, ur_y) \<Rightarrow>
                   start_dict_entry (PyBytes ''MediaBox'')
                     (start_array (\<lambda>start_array_element.
                        bind (start_array_element (write' ll_x)) (\<lambda>_.
                        bind (start_array_element (write' ll_y)) (\<lambda>_.
                        bind (start_array_element (write' ur_x)) (\<lambda>_.
                        start_array_element (write' ur_y))))))) (\<lambda>_.
         (case contents_id of
            None \<Rightarrow> ret ()
          | Some (Several ids) \<Rightarrow>
              start_dict_entry (PyBytes ''Contents'')
                (start_array (\<lambda>start_array_element.
                   for_each ids (\<lambda>i. start_array_element (write_ref i))))
          | Some (Single c) \<Rightarrow>
              start_dict_entry (PyBytes ''Contents'') (write_ref c)))))))) (\<lambda>_.
       ret (case contents_id of
              Some (Several ids) \<Rightarrow> after_for ids id'
            | _ \<Rightarrow> id'))))))"

text \<open>
  What \<open>PIL.Image.open\<close> reports about the encoded bytes. The decoder is outside the
  writer: \<open>write_image_page\<close> takes it as the argument \<open>Image_open\<close>.
\<close>

record image_obj =
  im_size :: "int \<times> int"
  im_mode :: string
  im_format :: string

definition write_image_page ::
  "(string \<Rightarrow> error + image_obj) \<Rightarrow> int option \<Rightarrow> string \<Rightarrow> int option \<Rightarrow> int option \<Rightarrow>
   (pyval \<times> pyval \<times> pyval \<times> pyval) option \<Rightarrow> int option \<Rightarrow> int action" where
  "write_image_page Image_open oid contents_bytes contents_id image_id media_box parent_id =
     bind write_header (\<lambda>_.
     bind (lift (Image_open contents_bytes)) (\<lambda>image.
     case im_size image of (width, height) \<Rightarrow>
     bind (lift (getitem MODE2COLOR_SPACE (im_mode image))) (\<lambda>color_space.
     bind (lift (getitem FORMAT2FILTER (im_format image))) (\<lambda>filter'.
     let content_stream = CONTENT_STREAM_TEMPLATE width height;
         media_box' = (case media_box of
                         None \<Rightarrow> (PyInt 0, PyInt 0, PyInt width, PyInt height)
                       | Some m \<Rightarrow> m)
     in
     bind (start_object image_id (\<lambda>image_id'.
             bind (start_dict (\<lambda>start_dict_entry.
               bind (start_dict_entry (PyBytes ''Type'') (write' (PyBytes ''/XObject''))) (\<lambda>_.
               bind (start_dict_entry (PyBytes ''Subtype'') (write' (PyBytes ''/Image''))) (\<lambda>_.
               bind (start_dict_entry (PyBytes ''Width'') (write' (PyInt width))) (\<lambda>_.
               bind (start_dict_entry (PyBytes ''Height'') (write' (PyInt height))) (\<lambda>_.
               bind (start_dict_entry (PyBytes ''ColorSpace'') (write' (PyBytes color_space))) (\<lambda>_.
               bind (start_dict_entry (PyBytes ''BitsPerComponent'') (write' (PyBytes ''8''))) (\<lambda>_.
               bind (start_dict_entry (PyBytes ''Length'')
                       (write' (PyInt (int (length contents_bytes))))) (\<lambda>_.
               start_dict_entry (PyBytes ''Filter'') (write' (PyBytes filter'))))))))))) (\<lambda>_.
             bind (start_stream (write' (PyBytes contents_bytes))) (\<lambda>_.
             ret image_id')))) (\<lambda>image_id'.
     bind (start_object contents_id (\<lambda>contents_id'.
             bind (start_dict (\<lambda>start_dict_entry.
               start_dict_entry (PyBytes ''Length'')
                 (bind (lift (as_ascii (PyInt (int (length content_stream))))) (\<lambda>b.
                  write' (PyBytes b))))) (\<lambda>_.
             bind (start_stream (write' (PyStr content_stream))) (\<lambda>_.
             ret contents_id')))) (\<lambda>contents_id'.
     write_page oid (Some (Single contents_id')) (Some media_box') parent_id
       (Some (PyStr (''<< /XObject << /Img '' @ str_int image_id' @ '' 0 R >> >>'')))))))))"

subsection \<open>Finalization\<close>

definition write_catalog :: "int option \<Rightarrow> int \<Rightarrow> int action" where
  "write_catalog oid page_tree_root_id' =
     start_object oid (\<lambda>id'.
       bind (start_dict (\<lambda>start_dict_entry.
         bind (start_dict_entry (PyBytes ''Type'') (write' (PyBytes ''/Catalog''))) (\<lambda>_.
         start_dict_entry (PyBytes ''Pages'') (write_ref page_tree_root_id')))) (\<lambda>_.
       ret id'))"

definition write_footer :: "unit action" where
  "write_footer = write' (PyBytes ''%%EOF'')"

definition write_page_tree :: "int action" where
  "write_page_tree =
     bind (gets page_tree_root_id) (\<lambda>root.
     start_object root (\<lambda>id'.
       bind (modify (\<lambda>s. s\<lparr>page_tree_root_id := Some id'\<rparr>)) (\<lambda>_.
       bind (start_dict (\<lambda>start_dict_entry.
         bind (start_dict_entry (PyBytes ''Type'') (write' (PyBytes ''/Pages''))) (\<lambda>_.
         bind (start_dict_entry (PyBytes ''Kids'')
                 (start_array (\<lambda>start_array_element.
                    bind (gets page_ids) (\<lambda>ids.
                    for_each ids (\<lambda>page_id. start_array_element (write_ref page_id)))))) (\<lambda>_.
         start_dict_entry (PyBytes ''Count'')
           (bind (gets page_ids) (\<lambda>ids. write' (PyInt (int (length ids))))))))) (\<lambda>_.
       ret id'))))"

definition write_startxref :: "nat \<Rightarrow> unit action" where
  "write_startxref xref_pos =
     bind (write' (PyBytes ''startxref\<newline>'')) (\<lambda>_.
     bind (lift (as_ascii (PyInt (int xref_pos)))) (\<lambda>b.
     bind (write' (PyBytes b)) (\<lambda>_.
     write' (PyBytes ''\<newline>''))))"

definition write_trailer :: "int \<Rightarrow> unit action" where
  "write_trailer catalog_id =
     bind (write' (PyBytes ''trailer\<newline>'')) (\<lambda>_.
     bind (write' (PyBytes ''<<\<newline>'')) (\<lambda>_.
     bind (write' (PyBytes ''/Size '')) (\<lambda>_.
     bind (gets xrefs) (\<lambda>xs.
     bind (write' (PyInt (int (length xs) + 1))) (\<lambda>_.
     bind (write' (PyBytes ''\<newline>'')) (\<lambda>_.
     bind (write' (PyBytes ''/Root '')) (\<lambda>_.
     bind (write' (PyInt catalog_id)) (\<lambda>_.
     bind (write' (PyBytes '' 0 R\<newline>'')) (\<lambda>_.
     write' (PyBytes ''>>\<newline>''))))))))))"

text \<open>The nested function \<open>write_entry\<close> of \<open>_write_xrefs\<close>.\<close>

definition write_entry :: "int \<Rightarrow> nat \<Rightarrow> nat \<Rightarrow> bool \<Rightarrow> unit action" where
  "write_entry id' offset gen in_use =
     bind (lift (as_ascii (PyInt id'))) (\<lambda>b.
     bind (write' (PyBytes b)) (\<lambda>_.
     bind (write' (PyBytes '' 1\<newline>'')) (\<lambda>_.
     bind (lift (as_ascii (PyStr (zero_pad 10 offset @ '' '' @ zero_pad 5 gen @ '' '' @
                                  (if in_use then ''n'' else ''f'') @ '' \<newline>'')))) (\<lambda>line.
     write' (PyBytes line)))))"

text \<open>
  \<open>sorted(self._xrefs.items())\<close>: the keys of a dictionary are distinct, so the order of
  the pairs is the order of their ids.
\<close>

definition write_xrefs :: "nat action" where
  "write_xrefs =
     bind (gets pos) (\<lambda>xref_pos.
     bind (gets (\<lambda>s. sort_key fst (xrefs s))) (\<lambda>xref_items.
     bind (write' (PyBytes ''xref\<newline>'')) (\<lambda>_.
     bind (write_entry 0 0 65535 False) (\<lambda>_.
     bind (for_each xref_items (\<lambda>(id', offset). write_entry id' offset 0 True)) (\<lambda>_.
     ret xref_pos)))))"

definition sink_close :: "sink \<Rightarrow> sink" where
  "sink_close d = d\<lparr>sink_closed := True\<rparr>"

definition close :: "unit action" where
  "close =
     bind (gets out) (\<lambda>has_out.
     if \<not> has_out then ret ()
     else
       bind write_header (\<lambda>_.
       bind write_page_tree (\<lambda>page_tree_root_id'.
       bind (write_catalog None page_tree_root_id') (\<lambda>catalog_id.
       bind write_xrefs (\<lambda>xref_pos.
       bind (write_trailer catalog_id) (\<lambda>_.
       bind (write_startxref xref_pos) (\<lambda>_.
       bind write_footer (\<lambda>_.
       bind (gets owned) (\<lambda>own.
       bind (if own then modify (\<lambda>s. s\<lparr>sink := sink_close (sink s)\<rparr>) else ret ()) (\<lambda>_.
       modify (\<lambda>s. s\<lparr>out := False\<rparr>)))))))))))"

section \<open>Notions used in the statements\<close>

subsection \<open>Open writers and appended bytes\<close>

text \<open>
  \<open>good\<close>: the writer holds its destination and the destination accepts writes.
  \<open>ready\<close>: moreover the header is written. \<open>emit b\<close> is the effect of a successful
  \<open>_write\<close> of the bytes \<open>b\<close>.
\<close>

definition good :: "PdfWriter \<Rightarrow> bool" where
  "good s \<longleftrightarrow> out s \<and> \<not> sink_closed (sink s)"

definition emit :: "string \<Rightarrow> PdfWriter \<Rightarrow> PdfWriter" where
  "emit b s = s\<lparr>sink := (sink s)\<lparr>sink_data := sink_data (sink s) @ b\<rparr>, pos := pos s + length b\<rparr>"

definition ready :: "PdfWriter \<Rightarrow> bool" where
  "ready s \<longleftrightarrow> good s \<and> pos s \<noteq> 0"

subsection \<open>The layout of the output\<close>

text \<open>
  The byte layout of the structures the writer emits, following the description of the
  output format: references, arrays with single separating spaces, dictionary entries,
  indirect objects, cross-reference entries, trailer and \<open>startxref\<close>.
\<close>

definition ref_bytes :: "int \<Rightarrow> string" where
  "ref_bytes i = str_int i @ '' 0 R''"

fun elements :: "bool \<Rightarrow> string list \<Rightarrow> string" where
  "elements is_first [] = []"
| "elements is_first (e # es) = (if is_first then e else '' '' @ e) @ elements False es"

definition array_bytes :: "string list \<Rightarrow> string" where
  "array_bytes es = ''['' @ elements True es @ '']''"

definition entry_bytes :: "string \<Rightarrow> string \<Rightarrow> string" where
  "entry_bytes key v = ''/'' @ key @ '' '' @ v @ ''\<newline>''"

definition dict_bytes :: "string list \<Rightarrow> string" where
  "dict_bytes entries = ''<<\<newline>'' @ concat entries @ ''>>\<newline>''"

definition obj_token :: "int \<Rightarrow> string" where
  "obj_token k = str_int k @ '' 0 obj\<newline>''"

definition object_bytes :: "int \<Rightarrow> string \<Rightarrow> string" where
  "object_bytes k body = obj_token k @ body @ ''endobj\<newline>''"

definition stream_bytes :: "string \<Rightarrow> string" where
  "stream_bytes body = ''stream\<newline>'' @ body @ ''\<newline>endstream\<newline>''"

definition page_tree_bytes :: "int \<Rightarrow> int list \<Rightarrow> string" where
  "page_tree_bytes k ids =
     object_bytes k (dict_bytes
       [entry_bytes ''Type'' ''/Pages'',
        entry_bytes ''Kids'' (array_bytes (map ref_bytes ids)),
        entry_bytes ''Count'' (str_int (int (length ids)))])"

definition catalog_bytes :: "int \<Rightarrow> int \<Rightarrow> string" where
  "catalog_bytes c k =
     object_bytes c (dict_bytes
       [entry_bytes ''Type'' ''/Catalog'', entry_bytes ''Pages'' (ref_bytes k)])"

definition xref_entry_bytes :: "int \<Rightarrow> nat \<Rightarrow> nat \<Rightarrow> bool \<Rightarrow> string" where
  "xref_entry_bytes i offset gen in_use =
     str_int i @ '' 1\<newline>'' @ zero_pad 10 offset @ '' '' @ zero_pad 5 gen @ '' '' @
     (if in_use then ''n'' else ''f'') @ '' \<newline>''"

definition xref_bytes :: "(int \<times> nat) list \<Rightarrow> string" where
  "xref_bytes items =
     ''xref\<newline>'' @ xref_entry_bytes 0 0 65535 False @
     concat (map (\<lambda>(i, offset). xref_entry_bytes i offset 0 True) (sort_key fst items))"

definition trailer_bytes :: "int \<Rightarrow> int \<Rightarrow> string" where
  "trailer_bytes n catalog_id =
     ''trailer\<newline><<\<newline>/Size '' @ str_int n @ ''\<newline>/Root '' @ str_int catalog_id @
     '' 0 R\<newline>>>\<newline>''"

definition startxref_bytes :: "nat \<Rightarrow> string" where
  "startxref_bytes xref_pos = ''startxref\<newline>'' @ str_int (int xref_pos) @ ''\<newline>''"

text \<open>
  The two stream objects of an image page: the image resource and the content stream, each
  a dictionary followed by a stream. \<open>n\<close> is the value of the \<open>/Length\<close> entry, \<open>body\<close>
  what stands between \<open>stream\<close> and \<open>endstream\<close>.
\<close>

definition image_object_bytes ::
  "int \<Rightarrow> int \<Rightarrow> int \<Rightarrow> string \<Rightarrow> string \<Rightarrow> int \<Rightarrow> string \<Rightarrow> string" where
  "image_object_bytes k width height color_space filter_token n body =
     object_bytes k
       (dict_bytes
          [entry_bytes ''Type'' ''/XObject'',
           entry_bytes ''Subtype'' ''/Image'',
           entry_bytes ''Width'' (str_int width),
           entry_bytes ''Height'' (str_int height),
           entry_bytes ''ColorSpace'' color_space,
           entry_bytes ''BitsPerComponent'' ''8'',
           entry_bytes ''Length'' (str_int n),
           entry_bytes ''Filter'' filter_token] @
        stream_bytes body)"

definition content_object_bytes :: "int \<Rightarrow> int \<Rightarrow> string \<Rightarrow> string" where
  "content_object_bytes k n body =
     object_bytes k (dict_bytes [entry_bytes ''Length'' (str_int n)] @ stream_bytes body)"

definition image_page_bytes :: "int \<Rightarrow> int \<Rightarrow> string \<Rightarrow> string list \<Rightarrow> int \<Rightarrow> string" where
  "image_page_bytes k parent resources media_box contents =
     object_bytes k
       (dict_bytes
          [entry_bytes ''Type'' ''/Page'',
           entry_bytes ''Parent'' (ref_bytes parent),
           entry_bytes ''Resources'' resources,
           entry_bytes ''MediaBox'' (array_bytes media_box),
           entry_bytes ''Contents'' (ref_bytes contents)])"

subsection \<open>Ids and the header\<close>

text \<open>The id \<open>start_object\<close> uses and the allocator after it.\<close>

definition object_id :: "int option \<Rightarrow> PdfWriter \<Rightarrow> int" where
  "object_id oid s = (case oid of None \<Rightarrow> id_stream s | Some i \<Rightarrow> i)"

definition take_id :: "int option \<Rightarrow> PdfWriter \<Rightarrow> PdfWriter" where
  "take_id oid s = (case oid of None \<Rightarrow> s\<lparr>id_stream := id_stream s + 1\<rparr> | Some i \<Rightarrow> s)"

text \<open>
  The parent a page refers to, and the writer after \<open>write_page\<close> has determined it:
  the argument when one is given; otherwise the tree-root id, reserved now if there is
  none yet.
\<close>

definition page_parent :: "int option \<Rightarrow> PdfWriter \<Rightarrow> int" where
  "page_parent parent_id s =
     (case parent_id of
        Some p \<Rightarrow> p
      | None \<Rightarrow> (case page_tree_root_id s of
                   None \<Rightarrow> id_stream s
                 | Some r \<Rightarrow> if r \<noteq> 0 then r else id_stream s))"

definition take_parent :: "int option \<Rightarrow> PdfWriter \<Rightarrow> PdfWriter" where
  "take_parent parent_id s =
     (case parent_id of
        Some p \<Rightarrow> s
      | None \<Rightarrow> (case page_tree_root_id s of
                   None \<Rightarrow> s\<lparr>id_stream := id_stream s + 1, page_tree_root_id := Some (id_stream s)\<rparr>
                 | Some r \<Rightarrow> if r \<noteq> 0 then s
                            else s\<lparr>id_stream := id_stream s + 1,
                                   page_tree_root_id := Some (id_stream s)\<rparr>))"

text \<open>The writer after \<open>_write_header\<close>.\<close>

definition started :: "PdfWriter \<Rightarrow> PdfWriter" where
  "started s = (if pos s = 0 then emit ''%PDF-1.7\<newline>'' s else s)"

subsection \<open>What close appends\<close>

text \<open>
  What \<open>close\<close> appends to a writer whose header is written: the id of the page-tree
  object, the id of the catalog, the cross-reference dictionary at the time the table is
  written, and the bytes.
\<close>

definition final_root :: "PdfWriter \<Rightarrow> int" where
  "final_root s = object_id (page_tree_root_id s) s"

definition final_catalog :: "PdfWriter \<Rightarrow> int" where
  "final_catalog s = id_stream (take_id (page_tree_root_id s) s)"

definition final_xrefs :: "PdfWriter \<Rightarrow> (int \<times> nat) list" where
  "final_xrefs s =
     AList.update (final_catalog s)
       (pos s + length (page_tree_bytes (final_root s) (page_ids s)))
       (AList.update (final_root s) (pos s) (xrefs s))"

definition finalization_bytes :: "PdfWriter \<Rightarrow> string" where
  "finalization_bytes s =
     page_tree_bytes (final_root s) (page_ids s) @
     catalog_bytes (final_catalog s) (final_root s) @
     xref_bytes (final_xrefs s) @
     trailer_bytes (int (length (final_xrefs s)) + 1) (final_catalog s) @
     startxref_bytes (pos s + length (page_tree_bytes (final_root s) (page_ids s)) +
                      length (catalog_bytes (final_catalog s) (final_root s))) @
     ''%%EOF''"

subsection \<open>The writer inside a scope\<close>

text \<open>
  The writer at the moment the block of a scope starts, for a scope entered on the open
  writer \<open>s\<close>: the header is written if it was not, then the opening token. An array
  scope has a new variable \<open>first\<close>; an object scope has taken its id and recorded the
  position of its token.
\<close>

definition in_array :: "PdfWriter \<Rightarrow> PdfWriter" where
  "in_array s =
     emit ''['' ((started s)\<lparr>first := (first s)(frames s := True), frames := frames s + 1\<rparr>)"

definition in_dict :: "PdfWriter \<Rightarrow> PdfWriter" where
  "in_dict s = emit ''<<\<newline>'' (started s)"

definition in_object :: "int option \<Rightarrow> PdfWriter \<Rightarrow> PdfWriter" where
  "in_object oid s =
     emit (obj_token (object_id oid s))
       ((take_id oid (started s))
          \<lparr>xrefs := AList.update (object_id oid s) (pos (started s)) (xrefs s)\<rparr>)"

definition in_stream :: "PdfWriter \<Rightarrow> PdfWriter" where
  "in_stream s = emit ''stream\<newline>'' (started s)"

text \<open>The error \<open>_write\<close> raises on a writer that is not open.\<close>

definition write_refusal :: "PdfWriter \<Rightarrow> error" where
  "write_refusal s =
     (if \<not> out s then RuntimeError ''PDF writer is closed''
      else ValueError ''I/O operation on closed file'')"

subsection \<open>Write sequences\<close>

text \<open>
  What a caller does with a writer: a sequence of calls of its methods, the blocks of the
  scopes being sequences again. A call is given with the values of its arguments, so a
  caller that computes an argument from an earlier result is the sequence with that value
  written out. \<open>ArrayElement\<close> and \<open>DictEntry\<close> call the helper of the innermost
  enclosing array or dictionary scope. A caller that does not catch exceptions stops at
  the first call that raises.
\<close>

datatype cmd =
    Skip
  | Seq cmd cmd
  | NextObjectId
  | Write pyval
  | StartObject "int option" cmd
  | StartDict cmd
  | DictEntry pyval cmd
  | StartArray cmd
  | ArrayElement cmd
  | StartStream cmd
  | WritePage "int option" "contents_ids option" "(pyval \<times> pyval \<times> pyval \<times> pyval) option"
      "int option" "pyval option"
  | WriteImagePage "int option" string "int option" "int option"
      "(pyval \<times> pyval \<times> pyval \<times> pyval) option" "int option"
  | Close

fun exec ::
  "(string \<Rightarrow> error + image_obj) \<Rightarrow> (unit action \<Rightarrow> unit action) option \<Rightarrow> cmd \<Rightarrow> unit action" where
  "exec dec el Skip = ret ()"
| "exec dec el (Seq a b) = bind (exec dec el a) (\<lambda>_. exec dec el b)"
| "exec dec el NextObjectId = bind next_object_id (\<lambda>_. ret ())"
| "exec dec el (Write v) = write' v"
| "exec dec el (StartObject oid c) = start_object oid (\<lambda>_. exec dec el c)"
| "exec dec el (StartDict c) = start_dict (\<lambda>_. exec dec el c)"
| "exec dec el (DictEntry key c) = start_dict_entry key (exec dec el c)"
| "exec dec el (StartArray c) = start_array (\<lambda>el'. exec dec (Some el') c)"
| "exec dec el (ArrayElement c) =
     (case el of
        None \<Rightarrow> raise (NameError ''start_array_element'')
      | Some helper \<Rightarrow> helper (exec dec el c))"
| "exec dec el (StartStream c) = start_stream (exec dec el c)"
| "exec dec el (WritePage oid cid mb pid res) =
     bind (write_page oid cid mb pid res) (\<lambda>_. ret ())"
| "exec dec el (WriteImagePage oid cb cid iid mb pid) =
     bind (write_image_page dec oid cb cid iid mb pid) (\<lambda>_. ret ())"
| "exec dec el Close = close"

text \<open>
  Sequences that do not close the writer and pass \<open>p\<close> as \<open>parent_id\<close> to every
  \<open>write_page\<close> and \<open>write_image_page\<close>.
\<close>

fun parented :: "int \<Rightarrow> cmd \<Rightarrow> bool" where
  "parented p Skip = True"
| "parented p (Seq a b) = (parented p a \<and> parented p b)"
| "parented p NextObjectId = True"
| "parented p (Write v) = True"
| "parented p (StartObject oid c) = parented p c"
| "parented p (StartDict c) = parented p c"
| "parented p (DictEntry key c) = parented p c"
| "parented p (StartArray c) = parented p c"
| "parented p (ArrayElement c) = parented p c"
| "parented p (StartStream c) = parented p c"
| "parented p (WritePage oid cid mb pid res) = (pid = Some p)"
| "parented p (WriteImagePage oid cb cid iid mb pid) = (pid = Some p)"
| "parented p Close = False"

subsection \<open>Invariants of successful calls\<close>

text \<open>
  \<open>preserves I m\<close>: when \<open>I\<close> holds before the statement \<open>m\<close> and \<open>m\<close> does not
  raise, \<open>I\<close> holds after it. The other notions say which assignments of the writer a
  property \<open>I\<close> survives: appending bytes and the bookkeeping of arrays and pages
  (\<open>write_stable\<close>), taking an id (\<open>alloc_stable\<close>), starting an object
  (\<open>object_stable\<close>), setting the tree root (\<open>root_stable\<close>), dropping the
  destination at close (\<open>close_stable\<close>).
\<close>

definition preserves :: "(PdfWriter \<Rightarrow> bool) \<Rightarrow> 'a action \<Rightarrow> bool" where
  "preserves I m \<longleftrightarrow> (\<forall>s r s'. I s \<longrightarrow> m s = (Inr r, s') \<longrightarrow> I s')"

definition write_stable :: "(PdfWriter \<Rightarrow> bool) \<Rightarrow> bool" where
  "write_stable I \<longleftrightarrow>
     (\<forall>s b. I s \<longrightarrow> I (emit b s)) \<and>
     (\<forall>s f. I s \<longrightarrow> I (s\<lparr>first := f\<rparr>)) \<and>
     (\<forall>s n. I s \<longrightarrow> I (s\<lparr>frames := n\<rparr>)) \<and>
     (\<forall>s ps. I s \<longrightarrow> I (s\<lparr>page_ids := ps\<rparr>))"

definition alloc_stable :: "(PdfWriter \<Rightarrow> bool) \<Rightarrow> bool" where
  "alloc_stable I \<longleftrightarrow> (\<forall>s. I s \<longrightarrow> I (s\<lparr>id_stream := id_stream s + 1\<rparr>))"

definition object_stable :: "(PdfWriter \<Rightarrow> bool) \<Rightarrow> bool" where
  "object_stable I \<longleftrightarrow>
     (\<forall>s k. I s \<longrightarrow> I (emit (obj_token k) (s\<lparr>xrefs := AList.update k (pos s) (xrefs s)\<rparr>)))"

definition root_stable :: "(PdfWriter \<Rightarrow> bool) \<Rightarrow> bool" where
  "root_stable I \<longleftrightarrow> (\<forall>s r. I s \<longrightarrow> I (s\<lparr>page_tree_root_id := r\<rparr>))"

definition close_stable :: "(PdfWriter \<Rightarrow> bool) \<Rightarrow> bool" where
  "close_stable I \<longleftrightarrow>
     (\<forall>s. I s \<longrightarrow> I (s\<lparr>out := False\<rparr>) \<and> I (s\<lparr>sink := sink_close (sink s), out := False\<rparr>))"




subsection \<open>Concrete writers, images and write sequences\<close>

text \<open>A new writer that owns an empty, open destination.\<close>

definition empty_sink :: sink where
  "empty_sink = \<lparr>sink_data = [], sink_closed = False\<rparr>"

definition fresh :: PdfWriter where
  "fresh = PdfWriter_init empty_sink True True"

text \<open>An image the decoder reads but whose colour mode the writer does not know.\<close>

definition cmyk_image :: image_obj where
  "cmyk_image = \<lparr>im_size = (1, 1), im_mode = ''CMYK'', im_format = ''JPEG''\<rparr>"

definition gray_image :: image_obj where
  "gray_image = \<lparr>im_size = (2, 3), im_mode = ''L'', im_format = ''JPEG''\<rparr>"

text \<open>A new writer that was given no destination.\<close>

definition no_sink :: PdfWriter where
  "no_sink = PdfWriter_init empty_sink False True"

text \<open>A decoder that reports a 2 by 3 grayscale JPEG for any bytes, and two write sequences.\<close>

definition gray_decoder :: "string \<Rightarrow> error + image_obj" where
  "gray_decoder contents_bytes = Inr gray_image"

definition two_objects :: cmd where
  "two_objects =
     Seq (StartObject (Some 5) (Write (PyBytes ''null\<newline>''))) (StartObject None Skip)"

definition two_pages :: cmd where
  "two_pages =
     Seq (WritePage None None None (Some 1) None) (WritePage None None None (Some 1) None)"

section \<open>Basic facts\<close>

lemma bind_Inr_iff:
  "bind m f s = (Inr r, s') \<longleftrightarrow> (\<exists>x s1. m s = (Inr x, s1) \<and> f x s1 = (Inr r, s'))"
  by (auto simp: bind_def split: prod.splits sum.splits)

lemma bind_Inr [simp]: "m s = (Inr x, s1) \<Longrightarrow> bind m f s = f x s1"
  by (simp add: bind_def)

lemma bind_Inl [simp]: "m s = (Inl e, s1) \<Longrightarrow> bind m f s = (Inl e, s1)"
  by (simp add: bind_def)

lemma ret_apply [simp]: "ret x s = (Inr x, s)" by (simp add: ret_def)
lemma raise_apply [simp]: "raise e s = (Inl e, s)" by (simp add: raise_def)
lemma lift_apply [simp]: "lift r s = (r, s)" by (simp add: lift_def)
lemma gets_apply [simp]: "gets f s = (Inr (f s), s)" by (simp add: gets_def)
lemma modify_apply [simp]: "modify f s = (Inr (), f s)" by (simp add: modify_def)
lemma next_object_id_apply [simp]:
  "next_object_id s = (Inr (id_stream s), s\<lparr>id_stream := id_stream s + 1\<rparr>)"
  by (simp add: next_object_id_def)

lemma as_ascii_simps [simp]:
  "as_ascii (PyBytes b) = Inr b"
  "as_ascii (PyInt i) = Inr (str_int i)"
  "is_ascii cs \<Longrightarrow> as_ascii (PyStr cs) = Inr cs"
  by (simp_all add: as_ascii_def)

lemma emit_fields [simp]:
  "out (emit b s) = out s"
  "owned (emit b s) = owned s"
  "id_stream (emit b s) = id_stream s"
  "page_ids (emit b s) = page_ids s"
  "page_tree_root_id (emit b s) = page_tree_root_id s"
  "pos (emit b s) = pos s + length b"
  "xrefs (emit b s) = xrefs s"
  "first (emit b s) = first s"
  "frames (emit b s) = frames s"
  "sink_data (sink (emit b s)) = sink_data (sink s) @ b"
  "sink_closed (sink (emit b s)) = sink_closed (sink s)"
  by (simp_all add: emit_def)

lemma emit_emit [simp]: "emit b (emit a s) = emit (a @ b) s"
  by (simp add: emit_def)

lemma emit_commute [simp]:
  "(emit b s)\<lparr>id_stream := i\<rparr> = emit b (s\<lparr>id_stream := i\<rparr>)"
  "(emit b s)\<lparr>page_ids := ps\<rparr> = emit b (s\<lparr>page_ids := ps\<rparr>)"
  "(emit b s)\<lparr>page_tree_root_id := r\<rparr> = emit b (s\<lparr>page_tree_root_id := r\<rparr>)"
  "(emit b s)\<lparr>xrefs := xs\<rparr> = emit b (s\<lparr>xrefs := xs\<rparr>)"
  "(emit b s)\<lparr>first := f\<rparr> = emit b (s\<lparr>first := f\<rparr>)"
  "(emit b s)\<lparr>frames := n\<rparr> = emit b (s\<lparr>frames := n\<rparr>)"
  by (simp_all add: emit_def)

lemma good_emit [simp]: "good (emit b s) = good s"
  by (simp add: good_def)

lemma good_update [simp]:
  "good (s\<lparr>id_stream := i\<rparr>) = good s"
  "good (s\<lparr>page_ids := ps\<rparr>) = good s"
  "good (s\<lparr>page_tree_root_id := r\<rparr>) = good s"
  "good (s\<lparr>xrefs := xs\<rparr>) = good s"
  "good (s\<lparr>first := f\<rparr>) = good s"
  "good (s\<lparr>frames := n\<rparr>) = good s"
  by (simp_all add: good_def)

lemma ready_emit [simp]: "ready s \<Longrightarrow> ready (emit b s)"
  by (simp add: ready_def)

lemma ready_update [simp]:
  "ready (s\<lparr>id_stream := i\<rparr>) = ready s"
  "ready (s\<lparr>page_ids := ps\<rparr>) = ready s"
  "ready (s\<lparr>page_tree_root_id := r\<rparr>) = ready s"
  "ready (s\<lparr>xrefs := xs\<rparr>) = ready s"
  "ready (s\<lparr>first := f\<rparr>) = ready s"
  "ready (s\<lparr>frames := n\<rparr>) = ready s"
  by (simp_all add: ready_def)

lemma write'_good: "good s \<Longrightarrow> as_ascii v = Inr b \<Longrightarrow> write' v s = (Inr (), emit b s)"
  by (simp add: write'_def good_def emit_def)

lemma write'_ready [simp]:
  "ready s \<Longrightarrow> write' (PyBytes b) s = (Inr (), emit b s)"
  "ready s \<Longrightarrow> write' (PyInt i) s = (Inr (), emit (str_int i) s)"
  "ready s \<Longrightarrow> is_ascii cs \<Longrightarrow> write' (PyStr cs) s = (Inr (), emit cs s)"
  by (simp_all add: write'_good ready_def)

lemma write_header_ready [simp]: "ready s \<Longrightarrow> write_header s = (Inr (), s)"
  by (simp add: write_header_def ready_def)

lemma write_header_good:
  "good s \<Longrightarrow> write_header s = (Inr (), if pos s = 0 then emit ''%PDF-1.7\<newline>'' s else s)"
  by (simp add: write_header_def write'_good)

lemma write_ref_ready [simp]:
  "ready s \<Longrightarrow> write_ref i s = (Inr (), emit (str_int i @ '' 0 R'') s)"
  by (simp add: write_ref_def)


subsection \<open>Running the writer on an open destination\<close>

lemma emit_Nil [simp]: "emit [] s = s"
  by (simp add: emit_def)

lemma take_id_fields [simp]:
  "out (take_id oid s) = out s"
  "owned (take_id oid s) = owned s"
  "sink (take_id oid s) = sink s"
  "page_ids (take_id oid s) = page_ids s"
  "page_tree_root_id (take_id oid s) = page_tree_root_id s"
  "pos (take_id oid s) = pos s"
  "xrefs (take_id oid s) = xrefs s"
  "first (take_id oid s) = first s"
  "frames (take_id oid s) = frames s"
  by (simp_all add: take_id_def split: option.splits)

lemma ready_take_id [simp]: "ready (take_id oid s) = ready s"
  by (simp add: ready_def good_def)

lemma good_started [simp]: "good (started s) = good s"
  by (simp add: started_def)

lemma ready_started [simp]: "good s \<Longrightarrow> ready (started s)"
  by (simp add: started_def ready_def)

lemma write_header_started: "good s \<Longrightarrow> write_header s = (Inr (), started s)"
  by (simp add: write_header_good started_def)

lemma start_array_element_ready:
  "ready s \<Longrightarrow> start_array_element c body s =
     (if first s c then body (s\<lparr>first := (first s)(c := False)\<rparr>) else body (emit '' '' s))"
  by (simp add: start_array_element_def)

lemma for_each_refs:
  "ready s \<Longrightarrow> for_each ids (\<lambda>i. start_array_element c (write_ref i)) s =
     (Inr (), emit (elements (first s c) (map ref_bytes ids))
                (s\<lparr>first := (first s)(c := (first s c \<and> ids = []))\<rparr>))"
proof (induction ids arbitrary: s)
  case Nil
  then show ?case by simp
next
  case (Cons i ids)
  show ?case
  proof (cases "first s c")
    case True
    with Cons.prems show ?thesis
      by (simp add: start_array_element_ready Cons.IH ref_bytes_def)
  next
    case False
    with Cons.prems show ?thesis
      by (simp add: start_array_element_ready Cons.IH ref_bytes_def)
  qed
qed

lemma start_object_ready:
  "ready s \<Longrightarrow> start_object oid body s =
     bind (body (object_id oid s)) (\<lambda>r. bind (write' (PyBytes ''endobj\<newline>'')) (\<lambda>_. ret r))
       (emit (obj_token (object_id oid s))
          ((take_id oid s)\<lparr>xrefs := AList.update (object_id oid s) (pos s) (xrefs s)\<rparr>))"
  by (cases oid) (simp_all add: start_object_def object_id_def take_id_def obj_token_def)

lemma write_page_tree_ready:
  "ready s \<Longrightarrow> write_page_tree s =
     (Inr (object_id (page_tree_root_id s) s),
      emit (page_tree_bytes (object_id (page_tree_root_id s) s) (page_ids s))
        ((take_id (page_tree_root_id s) s)
           \<lparr>page_tree_root_id := Some (object_id (page_tree_root_id s) s),
            xrefs := AList.update (object_id (page_tree_root_id s) s) (pos s) (xrefs s),
            first := (first s)(frames s := (page_ids s = [])),
            frames := frames s + 1\<rparr>))"
  by (simp add: write_page_tree_def start_object_ready start_dict_def start_dict_entry_def
      start_array_def for_each_refs page_tree_bytes_def object_bytes_def dict_bytes_def
      entry_bytes_def array_bytes_def)

lemma is_ascii_simps [simp]:
  "is_ascii []"
  "is_ascii (c # cs) \<longleftrightarrow> of_char c < (128::nat) \<and> is_ascii cs"
  "is_ascii (xs @ ys) \<longleftrightarrow> is_ascii xs \<and> is_ascii ys"
  "is_ascii (replicate n c) \<longleftrightarrow> n = 0 \<or> of_char c < (128::nat)"
  by (auto simp: is_ascii_def list_all_iff)

lemma digit_ascii: "n < 10 \<Longrightarrow> of_char (digit n) < (128::nat)"
proof -
  assume "n < 10"
  then have "n \<in> {0, 1, 2, 3, 4, 5, 6, 7, 8, 9}" by auto
  then show ?thesis by (auto simp: digit_def)
qed

lemma is_ascii_str_nat [simp]: "is_ascii (str_nat n)"
proof (induction n rule: str_nat.induct)
  case (1 n)
  show ?case
  proof (cases "n < 10")
    case True
    then show ?thesis by (subst str_nat.simps) (simp add: digit_ascii)
  next
    case False
    with 1 show ?thesis by (subst str_nat.simps) (simp add: digit_ascii)
  qed
qed

lemma is_ascii_str_int [simp]: "is_ascii (str_int i)"
  by (simp add: str_int_def)

lemma is_ascii_zero_pad [simp]: "is_ascii (zero_pad w n)"
  by (simp add: zero_pad_def)

lemma write_entry_ready [simp]:
  "ready s \<Longrightarrow> write_entry i offset gen in_use s = (Inr (), emit (xref_entry_bytes i offset gen in_use) s)"
  by (simp add: write_entry_def xref_entry_bytes_def)

lemma for_each_entries:
  "ready s \<Longrightarrow> for_each items (\<lambda>(i, offset). write_entry i offset 0 True) s =
     (Inr (), emit (concat (map (\<lambda>(i, offset). xref_entry_bytes i offset 0 True) items)) s)"
  by (induction items arbitrary: s) (simp_all add: split_beta)

lemma write_xrefs_ready:
  "ready s \<Longrightarrow> write_xrefs s = (Inr (pos s), emit (xref_bytes (xrefs s)) s)"
  by (simp add: write_xrefs_def for_each_entries xref_bytes_def)

lemma write_catalog_ready:
  "ready s \<Longrightarrow> write_catalog None k s =
     (Inr (id_stream s),
      emit (catalog_bytes (id_stream s) k)
        (s\<lparr>id_stream := id_stream s + 1, xrefs := AList.update (id_stream s) (pos s) (xrefs s)\<rparr>))"
  by (simp add: write_catalog_def start_object_ready start_dict_def start_dict_entry_def
      catalog_bytes_def object_bytes_def dict_bytes_def entry_bytes_def ref_bytes_def
      object_id_def take_id_def)

lemma write_trailer_ready:
  "ready s \<Longrightarrow> write_trailer c s =
     (Inr (), emit (trailer_bytes (int (length (xrefs s)) + 1) c) s)"
  by (simp add: write_trailer_def trailer_bytes_def)

lemma write_startxref_ready:
  "ready s \<Longrightarrow> write_startxref p s = (Inr (), emit (startxref_bytes p) s)"
  by (simp add: write_startxref_def startxref_bytes_def)

lemma write_footer_ready:
  "ready s \<Longrightarrow> write_footer s = (Inr (), emit ''%%EOF'' s)"
  by (simp add: write_footer_def)

lemma close_ready:
  assumes "ready s"
  shows "\<exists>s'. close s = (Inr (), s') \<and> \<not> out s' \<and>
           sink_data (sink s') = sink_data (sink s) @ finalization_bytes s \<and>
           pos s' = pos s + length (finalization_bytes s) \<and>
           xrefs s' = final_xrefs s \<and>
           page_tree_root_id s' = Some (final_root s) \<and>
           id_stream s' = final_catalog s + 1 \<and>
           page_ids s' = page_ids s \<and> owned s' = owned s \<and>
           sink_closed (sink s') = owned s"
proof -
  from assms have o: "out s" and c: "\<not> sink_closed (sink s)"
    by (simp_all add: ready_def good_def)
  from assms o c show ?thesis
    by (simp add: close_def write_page_tree_ready write_catalog_ready write_xrefs_ready
        write_trailer_ready write_startxref_ready write_footer_ready finalization_bytes_def
        final_root_def final_catalog_def final_xrefs_def sink_close_def add.assoc)
qed

lemma started_fields [simp]:
  "out (started s) = out s"
  "owned (started s) = owned s"
  "id_stream (started s) = id_stream s"
  "page_ids (started s) = page_ids s"
  "page_tree_root_id (started s) = page_tree_root_id s"
  "xrefs (started s) = xrefs s"
  "first (started s) = first s"
  "frames (started s) = frames s"
  "sink_closed (sink (started s)) = sink_closed (sink s)"
  by (simp_all add: started_def)

lemma started_ready [simp]: "ready s \<Longrightarrow> started s = s"
  by (simp add: started_def ready_def)

lemma close_started: "good s \<Longrightarrow> close s = close (started s)"
  by (simp add: close_def write_header_started good_def)

lemma close_not_out: "\<not> out s \<Longrightarrow> close s = (Inr (), s)"
  by (simp add: close_def)

subsection \<open>Writers without a destination\<close>

lemma fresh_fields [simp]:
  "out fresh" "owned fresh" "id_stream fresh = 1" "page_ids fresh = []"
  "page_tree_root_id fresh = None" "pos fresh = 0" "xrefs fresh = []" "frames fresh = 0"
  "sink_data (sink fresh) = []" "\<not> sink_closed (sink fresh)"
  by (simp_all add: fresh_def PdfWriter_init_def empty_sink_def)

lemma good_fresh [simp]: "good fresh"
  by (simp add: good_def)

lemma close_good:
  assumes "good s"
  shows "\<exists>s'. close s = (Inr (), s') \<and> \<not> out s' \<and> pos s' \<noteq> 0 \<and>
           sink_data (sink s') = sink_data (sink (started s)) @ finalization_bytes (started s) \<and>
           pos s' = pos (started s) + length (finalization_bytes (started s)) \<and>
           xrefs s' = final_xrefs (started s) \<and>
           page_tree_root_id s' = Some (final_root (started s)) \<and>
           id_stream s' = final_catalog (started s) + 1 \<and>
           page_ids s' = page_ids s \<and> owned s' = owned s \<and>
           sink_closed (sink s') = owned s"
proof -
  from assms have r: "ready (started s)" by simp
  then have "pos (started s) \<noteq> 0" by (simp add: ready_def)
  with close_ready [OF r] show ?thesis
    by (auto simp: close_started [OF assms])
qed

lemma close_good_pair: "good s \<Longrightarrow> close s = (Inr (), snd (close s))"
  using close_good [of s] by auto

lemma write'_success:
  "write' v sa = (Inr u, sb) \<Longrightarrow> \<exists>b. as_ascii v = Inr b \<and> good sa \<and> sb = emit b sa"
  by (auto simp: write'_def good_def emit_def split: if_splits sum.splits)

lemma write'_not_out [simp]:
  "\<not> out s \<Longrightarrow> write' v s = (Inl (RuntimeError ''PDF writer is closed''), s)"
  by (simp add: write'_def)

lemma write_header_nonzero [simp]: "pos s \<noteq> 0 \<Longrightarrow> write_header s = (Inr (), s)"
  by (simp add: write_header_def)

lemma write_header_not_out [simp]:
  "\<not> out s \<Longrightarrow> pos s = 0 \<Longrightarrow>
     write_header s = (Inl (RuntimeError ''PDF writer is closed''), s)"
  by (simp add: write_header_def)

lemma close_success:
  "close s0 = (Inr (), s) \<Longrightarrow> \<not> out s \<and> (out s0 \<longrightarrow> pos s \<noteq> 0)"
  by (auto simp: close_def bind_Inr_iff write_footer_def dest!: write'_success split: if_splits)

lemma start_object_not_out:
  "\<not> out s \<Longrightarrow>
     fst (start_object oid body s) = Inl (RuntimeError ''PDF writer is closed'') \<and>
     sink (snd (start_object oid body s)) = sink s"
  by (cases "pos s = 0"; cases oid) (simp_all add: start_object_def)

lemma start_object_not_out_state:
  "\<not> out s \<Longrightarrow> pos s \<noteq> 0 \<Longrightarrow>
     start_object oid body s =
       (Inl (RuntimeError ''PDF writer is closed''),
        (take_id oid s)\<lparr>xrefs := AList.update (object_id oid s) (pos s) (xrefs s)\<rparr>)"
  by (cases oid) (simp_all add: start_object_def take_id_def object_id_def)

lemma start_dict_not_out:
  "\<not> out s \<Longrightarrow>
     fst (start_dict body s) = Inl (RuntimeError ''PDF writer is closed'') \<and>
     sink (snd (start_dict body s)) = sink s"
  by (cases "pos s = 0") (simp_all add: start_dict_def)

lemma start_array_not_out:
  "\<not> out s \<Longrightarrow>
     fst (start_array body s) = Inl (RuntimeError ''PDF writer is closed'') \<and>
     sink (snd (start_array body s)) = sink s"
  by (cases "pos s = 0") (simp_all add: start_array_def)

lemma start_stream_not_out:
  "\<not> out s \<Longrightarrow>
     fst (start_stream body s) = Inl (RuntimeError ''PDF writer is closed'') \<and>
     sink (snd (start_stream body s)) = sink s"
  by (cases "pos s = 0") (simp_all add: start_stream_def)

lemma parent_step [simp]:
  "(case pid of
      Some p \<Rightarrow> ret p
    | None \<Rightarrow>
        bind (gets page_tree_root_id) (\<lambda>root.
        bind (case root of
                None \<Rightarrow> next_object_id
              | Some r \<Rightarrow> if r \<noteq> 0 then ret r else next_object_id) (\<lambda>v.
        bind (modify (\<lambda>s. s\<lparr>page_tree_root_id := Some v\<rparr>)) (\<lambda>_.
        ret v)))) s = (Inr (page_parent pid s), take_parent pid s)"
  by (simp add: page_parent_def take_parent_def split: option.splits)

lemma take_parent_fields [simp]:
  "out (take_parent pid s) = out s"
  "owned (take_parent pid s) = owned s"
  "sink (take_parent pid s) = sink s"
  "page_ids (take_parent pid s) = page_ids s"
  "pos (take_parent pid s) = pos s"
  "xrefs (take_parent pid s) = xrefs s"
  "first (take_parent pid s) = first s"
  "frames (take_parent pid s) = frames s"
  by (simp_all add: take_parent_def split: option.splits)

lemma ready_take_parent [simp]: "ready (take_parent pid s) = ready s"
  by (simp add: ready_def good_def)

lemma write_page_not_out:
  "\<not> out s \<Longrightarrow>
     fst (write_page oid cid mb pid res s) = Inl (RuntimeError ''PDF writer is closed'') \<and>
     sink (snd (write_page oid cid mb pid res s)) = sink s"
  by (cases "pos s = 0")
    (simp_all add: write_page_def start_object_not_out)

subsection \<open>Evaluating layouts on numerals\<close>

lemma str_nat_numeral:
  "str_nat (numeral k) =
     (if numeral k < (10::nat) then [digit (numeral k)]
      else str_nat (numeral k div 10) @ [digit (numeral k mod 10)])"
  by (rule str_nat.simps)

lemma str_nat_small: "str_nat 0 = ''0''" "str_nat 1 = ''1''" "str_nat (Suc 0) = ''1''"
  by (simp_all add: str_nat.simps [of 0] str_nat.simps [of 1] str_nat.simps [of "Suc 0"] digit_def)

lemma str_int_eval:
  "str_int 0 = ''0''" "str_int 1 = ''1''"
  "str_int (numeral k) = str_nat (numeral k)"
  "str_int (int n) = str_nat n"
  by (simp_all add: str_int_def str_nat_small)

lemma replicate_numeral: "replicate (numeral k) x = x # replicate (pred_numeral k) x"
  by (simp add: numeral_eq_Suc)

lemmas eval_simps = replicate_numeral str_nat_numeral str_nat_small str_int_eval digit_def zero_pad_def
  xref_bytes_def xref_entry_bytes_def page_tree_bytes_def catalog_bytes_def object_bytes_def
  obj_token_def dict_bytes_def entry_bytes_def array_bytes_def ref_bytes_def trailer_bytes_def
  startxref_bytes_def stream_bytes_def

lemma write_image_page_not_out:
  "\<not> out s \<Longrightarrow>
     sink (snd (write_image_page Image_open oid cb cid iid mb pid s)) = sink s \<and>
     fst (write_image_page Image_open oid cb cid iid mb pid s) =
       Inl (if pos s = 0 then RuntimeError ''PDF writer is closed''
            else case Image_open cb of
                Inl e \<Rightarrow> e
              | Inr img \<Rightarrow>
                  (case map_of MODE2COLOR_SPACE (im_mode img) of
                     None \<Rightarrow> KeyError (im_mode img)
                   | Some _ \<Rightarrow>
                       (case map_of FORMAT2FILTER (im_format img) of
                          None \<Rightarrow> KeyError (im_format img)
                        | Some _ \<Rightarrow> RuntimeError ''PDF writer is closed'')))"
  by (cases "pos s = 0"; cases "Image_open cb")
    (auto simp: write_image_page_def getitem_def start_object_not_out_state Let_def
      split: option.splits prod.splits)

subsection \<open>A new writer, closed at once\<close>

lemma closed_fresh:
  "\<not> out (snd (close fresh))" "pos (snd (close fresh)) \<noteq> 0"
  "close fresh = (Inr (), snd (close fresh))"
  using close_good [of fresh] by auto

lemma started_fresh:
  "pos (started fresh) = 9" "sink_data (sink (started fresh)) = ''%PDF-1.7\<newline>''"
  by (simp_all add: started_def)

lemma finalization_fresh:
  "finalization_bytes (started fresh) =
     ''1 0 obj\<newline><<\<newline>/Type /Pages\<newline>/Kids []\<newline>/Count 0\<newline>>>\<newline>endobj\<newline>2 0 obj\<newline><<\<newline>/Type /Catalog\<newline>/Pages 1 0 R\<newline>>>\<newline>endobj\<newline>xref\<newline>0 1\<newline>0000000000 65535 f \<newline>1 1\<newline>0000000009 00000 n \<newline>2 1\<newline>0000000061 00000 n \<newline>trailer\<newline><<\<newline>/Size 3\<newline>/Root 2 0 R\<newline>>>\<newline>startxref\<newline>110\<newline>%%EOF''"
  by (simp add: finalization_bytes_def final_root_def final_catalog_def final_xrefs_def
      object_id_def take_id_def started_fresh eval_simps)

lemma close_fresh_eval:
  "pos (snd (close fresh)) = 240"
  "xrefs (snd (close fresh)) = [(1, 9), (2, 61)]"
  "id_stream (snd (close fresh)) = 3"
  using close_good [of fresh]
  by (auto simp: finalization_fresh started_fresh final_xrefs_def final_root_def final_catalog_def
      object_id_def take_id_def eval_simps)

subsection \<open>Scopes on an open writer\<close>

lemma write'_refused:
  "\<not> good s \<Longrightarrow> write' (PyBytes b) s = (Inl (write_refusal s), s)"
  by (simp add: write'_def good_def write_refusal_def)

lemma closer_step:
  "bind (write' (PyBytes b)) (\<lambda>_. ret v) t =
     (if good t then (Inr v, emit b t) else (Inl (write_refusal t), t))"
  by (simp add: write'_refused write'_good)

lemma scope_result:
  "bind body (\<lambda>r. bind (write' (PyBytes b)) (\<lambda>_. ret r)) t0 =
     (case body t0 of
        (Inl e, t) \<Rightarrow> (Inl e, t)
      | (Inr v, t) \<Rightarrow> if good t then (Inr v, emit b t) else (Inl (write_refusal t), t))"
  by (cases "body t0") (auto simp: closer_step split: sum.splits)

lemma start_stream_good:
  "good s \<Longrightarrow> start_stream body s =
     (case body (in_stream s) of
        (Inl e, t) \<Rightarrow> (Inl e, t)
      | (Inr v, t) \<Rightarrow>
          if good t then (Inr v, emit ''\<newline>endstream\<newline>'' t) else (Inl (write_refusal t), t))"
  by (simp add: start_stream_def write_header_started in_stream_def scope_result)

lemma start_dict_good:
  "good s \<Longrightarrow> start_dict body s =
     (case body start_dict_entry (in_dict s) of
        (Inl e, t) \<Rightarrow> (Inl e, t)
      | (Inr v, t) \<Rightarrow>
          if good t then (Inr v, emit ''>>\<newline>'' t) else (Inl (write_refusal t), t))"
  by (simp add: start_dict_def write_header_started in_dict_def scope_result)

lemma start_array_good:
  "good s \<Longrightarrow> start_array body s =
     (case body (start_array_element (frames s)) (in_array s) of
        (Inl e, t) \<Rightarrow> (Inl e, t)
      | (Inr v, t) \<Rightarrow>
          if good t then (Inr v, emit '']'' t) else (Inl (write_refusal t), t))"
  by (simp add: start_array_def write_header_started in_array_def scope_result)

lemma start_object_good:
  "good s \<Longrightarrow> start_object oid body s =
     (case body (object_id oid s) (in_object oid s) of
        (Inl e, t) \<Rightarrow> (Inl e, t)
      | (Inr v, t) \<Rightarrow>
          if good t then (Inr v, emit ''endobj\<newline>'' t) else (Inl (write_refusal t), t))"
  by (cases oid)
    (simp_all add: start_object_def write_header_started in_object_def scope_result
      object_id_def take_id_def obj_token_def)

lemma ready_started_fresh [simp]: "ready (started fresh)"
  by simp

lemma no_sink_fields [simp]: "\<not> out no_sink" "pos no_sink = 0"
  by (simp_all add: no_sink_def PdfWriter_init_def)

lemma write_page_started:
  "good s \<Longrightarrow> write_page oid cid mb pid res s = write_page oid cid mb pid res (started s)"
  by (simp add: write_page_def write_header_started)

lemma write_page_several:
  "ready s \<Longrightarrow>
   fst (write_page oid (Some (Several ids)) None pid None s) =
     Inr (after_for ids (object_id oid (take_parent pid s))) \<and>
   page_ids (snd (write_page oid (Some (Several ids)) None pid None s)) =
     page_ids s @ [object_id oid (take_parent pid s)] \<and>
   xrefs (snd (write_page oid (Some (Several ids)) None pid None s)) =
     AList.update (object_id oid (take_parent pid s)) (pos s) (xrefs s)"
  by (simp add: write_page_def start_object_ready start_dict_def
      start_dict_entry_def start_array_def for_each_refs)

subsection \<open>Invariants: rules\<close>

lemma preservesI: "(\<And>s r s'. I s \<Longrightarrow> m s = (Inr r, s') \<Longrightarrow> I s') \<Longrightarrow> preserves I m"
  by (auto simp: preserves_def)

lemma preservesD: "preserves I m \<Longrightarrow> I s \<Longrightarrow> m s = (Inr r, s') \<Longrightarrow> I s'"
  by (auto simp: preserves_def)

lemma preserves_ret [intro!]: "preserves I (ret x)"
  by (auto simp: preserves_def)

lemma preserves_raise [intro!]: "preserves I (raise e)"
  by (auto simp: preserves_def)

lemma preserves_lift [intro!]: "preserves I (lift r)"
  by (auto simp: preserves_def)

lemma preserves_gets [intro!]: "preserves I (gets f)"
  by (auto simp: preserves_def)

lemma preserves_bind [intro!]:
  "preserves I m \<Longrightarrow> (\<And>x. preserves I (f x)) \<Longrightarrow> preserves I (bind m f)"
  unfolding preserves_def bind_Inr_iff by blast

lemma preserves_for_each [intro!]:
  "(\<And>x. preserves I (f x)) \<Longrightarrow> preserves I (for_each xs f)"
  by (induction xs) auto

lemma preserves_modify: "(\<And>s. I s \<Longrightarrow> I (f s)) \<Longrightarrow> preserves I (modify f)"
  by (auto simp: preserves_def)

lemma preserves_write' [intro!]: "write_stable I \<Longrightarrow> preserves I (write' v)"
  by (auto simp: preserves_def write_stable_def dest!: write'_success)

lemma preserves_write_header [intro!]: "write_stable I \<Longrightarrow> preserves I write_header"
  by (auto simp: preserves_def write_stable_def write_header_def dest!: write'_success split: if_splits)

lemma preserves_next_object_id [intro!]: "alloc_stable I \<Longrightarrow> preserves I next_object_id"
  by (auto simp: preserves_def alloc_stable_def)

lemma preserves_write_ref [intro!]: "write_stable I \<Longrightarrow> preserves I (write_ref i)"
  unfolding write_ref_def by auto

lemma preserves_start_dict_entry [intro!]:
  "write_stable I \<Longrightarrow> preserves I body \<Longrightarrow> preserves I (start_dict_entry key body)"
  unfolding start_dict_entry_def by auto

lemma preserves_start_array_element [intro!]:
  "write_stable I \<Longrightarrow> preserves I body \<Longrightarrow> preserves I (start_array_element c body)"
  unfolding start_array_element_def
  by (auto intro!: preserves_modify simp: write_stable_def)

lemma preserves_start_stream [intro!]:
  "write_stable I \<Longrightarrow> preserves I body \<Longrightarrow> preserves I (start_stream body)"
  unfolding start_stream_def by auto

lemma preserves_start_dict [intro!]:
  "write_stable I \<Longrightarrow> preserves I (body start_dict_entry) \<Longrightarrow> preserves I (start_dict body)"
  unfolding start_dict_def by auto

lemma preserves_start_array [intro!]:
  assumes "write_stable I"
    and "\<And>c. preserves I (body (start_array_element c))"
  shows "preserves I (start_array body)"
proof -
  have m: "preserves I (modify (\<lambda>s. s\<lparr>first := (first s)(c := True), frames := c + 1\<rparr>))" for c
    using assms(1) by (intro preserves_modify) (simp add: write_stable_def)
  show ?thesis
    unfolding start_array_def using assms m by auto
qed

lemma start_object_success:
  "start_object oid body s = (Inr r, s') \<Longrightarrow>
     \<exists>s1 t. write_header s = (Inr (), s1) \<and>
       body (object_id oid s1)
         (emit (obj_token (object_id oid s1))
            ((take_id oid s1)\<lparr>xrefs := AList.update (object_id oid s1) (pos s1) (xrefs s1)\<rparr>)) =
         (Inr r, t) \<and>
       good t \<and> s' = emit ''endobj\<newline>'' t"
  by (cases oid)
    (auto simp: start_object_def bind_Inr_iff object_id_def take_id_def obj_token_def
      dest!: write'_success)

lemma preserves_start_object [intro!]:
  assumes "write_stable I" "alloc_stable I" "object_stable I"
    and "\<And>k. preserves I (body k)"
  shows "preserves I (start_object oid body)"
proof (rule preservesI)
  fix s r s'
  assume I: "I s" and run: "start_object oid body s = (Inr r, s')"
  from start_object_success [OF run] obtain s1 t where
    h: "write_header s = (Inr (), s1)" and
    b: "body (object_id oid s1)
         (emit (obj_token (object_id oid s1))
            ((take_id oid s1)\<lparr>xrefs := AList.update (object_id oid s1) (pos s1) (xrefs s1)\<rparr>)) =
         (Inr r, t)" and
    s': "s' = emit ''endobj\<newline>'' t"
    by blast
  from preserves_write_header [OF assms(1)] I h have "I s1"
    by (rule preservesD)
  with assms(2) have "I (take_id oid s1)"
    by (cases oid) (simp_all add: take_id_def alloc_stable_def)
  with assms(3) have "I (emit (obj_token (object_id oid s1))
            ((take_id oid s1)\<lparr>xrefs := AList.update (object_id oid s1) (pos (take_id oid s1)) (xrefs (take_id oid s1))\<rparr>))"
    unfolding object_stable_def by blast
  then have "I (emit (obj_token (object_id oid s1))
            ((take_id oid s1)\<lparr>xrefs := AList.update (object_id oid s1) (pos s1) (xrefs s1)\<rparr>))"
    by simp
  from preservesD [OF assms(4) this b] have "I t" .
  with assms(1) s' show "I s'"
    by (simp add: write_stable_def)
qed

lemma preserves_parent:
  assumes "alloc_stable I" and "pid = None \<Longrightarrow> root_stable I"
  shows "preserves I
     (case pid of
        Some p \<Rightarrow> ret p
      | None \<Rightarrow>
          bind (gets page_tree_root_id) (\<lambda>root.
          bind (case root of
                  None \<Rightarrow> next_object_id
                | Some r \<Rightarrow> if r \<noteq> 0 then ret r else next_object_id) (\<lambda>v.
          bind (modify (\<lambda>s. s\<lparr>page_tree_root_id := Some v\<rparr>)) (\<lambda>_.
          ret v))))"
proof (cases pid)
  case None
  with assms(2) have m: "preserves I (modify (\<lambda>s. s\<lparr>page_tree_root_id := Some v\<rparr>))" for v
    by (intro preserves_modify) (simp add: root_stable_def)
  from None assms(1) m show ?thesis
    by (auto split: option.splits)
next
  case (Some p)
  then show ?thesis by auto
qed

lemma preserves_write_page:
  assumes "write_stable I" "alloc_stable I" "object_stable I" and "pid = None \<Longrightarrow> root_stable I"
  shows "preserves I (write_page oid cid mb pid res)"
proof -
  have m: "preserves I (modify (\<lambda>s. s\<lparr>page_ids := page_ids s @ [k]\<rparr>))" for k
    using assms(1) by (intro preserves_modify) (simp add: write_stable_def)
  show ?thesis
    unfolding write_page_def
    apply (rule preserves_bind, rule preserves_write_header [OF assms(1)])
    apply (rule preserves_bind, rule preserves_parent [OF assms(2) assms(4)])
    using assms(1-3) m
    apply (auto split: option.splits contents_ids.splits prod.splits)
    done
qed

lemma preserves_write_image_page:
  assumes "write_stable I" "alloc_stable I" "object_stable I" and "pid = None \<Longrightarrow> root_stable I"
  shows "preserves I (write_image_page dec oid cb cid iid mb pid)"
  unfolding write_image_page_def Let_def
  using assms(1-3) preserves_write_page [OF assms]
  by (auto split: prod.splits)

lemma preserves_write_entry [intro!]:
  "write_stable I \<Longrightarrow> preserves I (write_entry i offset gen in_use)"
  unfolding write_entry_def by auto

lemma preserves_write_page_tree:
  assumes "write_stable I" "alloc_stable I" "object_stable I" "root_stable I"
  shows "preserves I write_page_tree"
proof -
  have m: "preserves I (modify (\<lambda>s. s\<lparr>page_tree_root_id := Some k\<rparr>))" for k
    using assms(4) by (intro preserves_modify) (simp add: root_stable_def)
  show ?thesis
    unfolding write_page_tree_def using assms(1-3) m by auto
qed

lemma preserves_write_catalog:
  assumes "write_stable I" "alloc_stable I" "object_stable I"
  shows "preserves I (write_catalog oid k)"
  unfolding write_catalog_def using assms by auto

lemma preserves_write_xrefs: "write_stable I \<Longrightarrow> preserves I write_xrefs"
  unfolding write_xrefs_def by (auto split: prod.splits)

lemma preserves_write_trailer: "write_stable I \<Longrightarrow> preserves I (write_trailer c)"
  unfolding write_trailer_def by auto

lemma preserves_write_startxref: "write_stable I \<Longrightarrow> preserves I (write_startxref p)"
  unfolding write_startxref_def by auto

lemma preserves_write_footer: "write_stable I \<Longrightarrow> preserves I write_footer"
  unfolding write_footer_def by auto

lemma preserves_release:
  assumes "close_stable I"
  shows "preserves I
     (bind (if own then modify (\<lambda>s. s\<lparr>sink := sink_close (sink s)\<rparr>) else ret ()) (\<lambda>_.
      modify (\<lambda>s. s\<lparr>out := False\<rparr>)))"
  using assms by (cases own) (auto simp: preserves_def close_stable_def)

lemma preserves_if:
  "(b \<Longrightarrow> preserves I m) \<Longrightarrow> (\<not> b \<Longrightarrow> preserves I n) \<Longrightarrow> preserves I (if b then m else n)"
  by simp

lemma preserves_close:
  assumes "write_stable I" "alloc_stable I" "object_stable I" "root_stable I" "close_stable I"
  shows "preserves I close"
  unfolding close_def
  apply (rule preserves_bind, rule preserves_gets)
  apply (rule preserves_if, rule preserves_ret)
  apply (rule preserves_bind, rule preserves_write_header [OF assms(1)])
  apply (rule preserves_bind, rule preserves_write_page_tree [OF assms(1-4)])
  apply (rule preserves_bind, rule preserves_write_catalog [OF assms(1-3)])
  apply (rule preserves_bind, rule preserves_write_xrefs [OF assms(1)])
  apply (rule preserves_bind, rule preserves_write_trailer [OF assms(1)])
  apply (rule preserves_bind, rule preserves_write_startxref [OF assms(1)])
  apply (rule preserves_bind, rule preserves_write_footer [OF assms(1)])
  apply (rule preserves_bind, rule preserves_gets)
  apply (rule preserves_release [OF assms(5)])
  done

lemma preserves_exec:
  assumes "write_stable I" "alloc_stable I" "object_stable I"
    and "root_stable I \<and> close_stable I \<or> parented p c"
    and "\<And>h b. el = Some h \<Longrightarrow> preserves I b \<Longrightarrow> preserves I (h b)"
  shows "preserves I (exec dec el c)"
  using assms(4,5)
proof (induction c arbitrary: el)
  case (StartArray c)
  have "preserves I (exec dec (Some (start_array_element n)) c)" for n
    using StartArray.prems(1) assms(1)
    by (intro StartArray.IH) auto
  with assms(1) show ?case by auto
next
  case (ArrayElement c)
  show ?case
  proof (cases el)
    case None
    then show ?thesis by (simp only: exec.simps option.case) (rule preserves_raise)
  next
    case (Some h)
    have "preserves I (exec dec el c)"
      using ArrayElement.prems by (intro ArrayElement.IH) auto
    from ArrayElement.prems(2) [OF Some this] Some show ?thesis
      by (simp only: exec.simps option.case)
  qed
next
  case (WritePage oid cid mb pid res)
  then have "pid = None \<Longrightarrow> root_stable I" by auto
  from preserves_write_page [OF assms(1-3) this] show ?case by auto
next
  case (WriteImagePage oid cb cid iid mb pid)
  then have "pid = None \<Longrightarrow> root_stable I" by auto
  from preserves_write_image_page [OF assms(1-3) this] show ?case by auto
next
  case Close
  with preserves_close [OF assms(1-3)] show ?case by auto
qed (use assms(1-3) in auto)

subsection \<open>The layout invariant\<close>













lemma ready_in_scope [simp]:
  "good s \<Longrightarrow> ready (in_object oid s)"
  "good s \<Longrightarrow> ready (in_dict s)"
  "good s \<Longrightarrow> ready (in_array s)"
  "good s \<Longrightarrow> ready (in_stream s)"
  by (simp_all add: in_object_def in_dict_def in_array_def in_stream_def)

lemma ready_good: "ready s \<Longrightarrow> good s"
  by (simp add: ready_def)

lemma good_take_id [simp]: "good (take_id oid s) = good s"
  by (simp add: good_def)

lemma good_in_scope [simp]:
  "good (in_object oid s) = good s"
  "good (in_dict s) = good s"
  "good (in_array s) = good s"
  "good (in_stream s) = good s"
  by (simp_all add: in_object_def in_dict_def in_array_def in_stream_def)

lemma ready_emit_good [simp]: "good s \<Longrightarrow> b \<noteq> [] \<Longrightarrow> ready (emit b s)"
  by (simp add: ready_def)

lemma exec_two_objects:
  "exec dec None two_objects fresh =
     (Inr (), emit ''%PDF-1.7\<newline>5 0 obj\<newline>null\<newline>endobj\<newline>1 0 obj\<newline>endobj\<newline>''
        (fresh\<lparr>id_stream := 2, xrefs := [(5, 9), (1, 29)]\<rparr>))"
  by (simp add: two_objects_def bind_def start_object_good in_object_def started_def
      object_id_def take_id_def eval_simps)

subsection \<open>Distinct ids, open destination\<close>

lemma distinct_ids_stable:
  "write_stable (\<lambda>s. distinct (map fst (xrefs s)))"
  "alloc_stable (\<lambda>s. distinct (map fst (xrefs s)))"
  "object_stable (\<lambda>s. distinct (map fst (xrefs s)))"
  "root_stable (\<lambda>s. distinct (map fst (xrefs s)))"
  "close_stable (\<lambda>s. distinct (map fst (xrefs s)))"
  by (simp_all add: write_stable_def alloc_stable_def object_stable_def root_stable_def
      close_stable_def distinct_update)

lemma open_stable:
  "write_stable (\<lambda>s. out s \<longrightarrow> \<not> sink_closed (sink s))"
  "alloc_stable (\<lambda>s. out s \<longrightarrow> \<not> sink_closed (sink s))"
  "object_stable (\<lambda>s. out s \<longrightarrow> \<not> sink_closed (sink s))"
  "root_stable (\<lambda>s. out s \<longrightarrow> \<not> sink_closed (sink s))"
  "close_stable (\<lambda>s. out s \<longrightarrow> \<not> sink_closed (sink s))"
  by (simp_all add: write_stable_def alloc_stable_def object_stable_def root_stable_def
      close_stable_def)

lemma exec_distinct_ids:
  assumes "exec dec None c (PdfWriter_init dest has_out own) = (Inr (), s)"
  shows "distinct (map fst (xrefs s))"
proof -
  have "preserves (\<lambda>s. distinct (map fst (xrefs s))) (exec dec None c)"
    by (rule preserves_exec [where p = 0]) (simp_all add: distinct_ids_stable)
  from preservesD [OF this _ assms] show ?thesis
    by (simp add: PdfWriter_init_def)
qed

lemma exec_open:
  assumes "exec dec None c (PdfWriter_init dest has_out own) = (Inr (), s)"
    and "\<not> sink_closed dest" and "out s"
  shows "good s"
proof -
  have "preserves (\<lambda>s. out s \<longrightarrow> \<not> sink_closed (sink s)) (exec dec None c)"
    by (rule preserves_exec [where p = 0]) (simp_all add: open_stable)
  from preservesD [OF this _ assms(1)] assms(2,3) show ?thesis
    by (simp add: PdfWriter_init_def good_def)
qed

lemma final_xrefs_ids:
  "fst ` set (final_xrefs s) =
     insert (final_catalog s) (insert (final_root s) (fst ` set (xrefs s)))"
  by (auto simp: final_xrefs_def dom_update)

lemma final_xrefs_distinct:
  "distinct (map fst (xrefs s)) \<Longrightarrow> distinct (map fst (final_xrefs s))"
  by (simp add: final_xrefs_def distinct_update)

lemma length_card_ids:
  "distinct (map fst xs) \<Longrightarrow> length xs = card (fst ` set xs)"
  using distinct_card [of "map fst xs"] by simp

lemma close_good_snd:
  assumes "good s"
  shows "close s = (Inr (), snd (close s))"
    and "sink_data (sink (snd (close s))) = sink_data (sink (started s)) @ finalization_bytes (started s)"
    and "xrefs (snd (close s)) = final_xrefs (started s)"
    and "id_stream (snd (close s)) = final_catalog (started s) + 1"
    and "page_tree_root_id (snd (close s)) = Some (final_root (started s))"
    and "fst (close s) = Inr ()"
  using close_good [OF assms] by auto

lemmas final_simps = finalization_bytes_def final_root_def final_catalog_def final_xrefs_def
  object_id_def take_id_def

lemma two_objects_state:
  "fst (exec dec None two_objects fresh) = Inr ()"
  "ready (snd (exec dec None two_objects fresh))"
  "out (snd (exec dec None two_objects fresh))"
  "pos (snd (exec dec None two_objects fresh)) = 44"
  "xrefs (snd (exec dec None two_objects fresh)) = [(5, 9), (1, 29)]"
  "id_stream (snd (exec dec None two_objects fresh)) = 2"
  "page_ids (snd (exec dec None two_objects fresh)) = []"
  "page_tree_root_id (snd (exec dec None two_objects fresh)) = None"
  "sink_data (sink (snd (exec dec None two_objects fresh))) =
     ''%PDF-1.7\<newline>5 0 obj\<newline>null\<newline>endobj\<newline>1 0 obj\<newline>endobj\<newline>''"
  by (simp_all add: exec_two_objects)

lemma started_zero:
  "pos s = 0 \<Longrightarrow> pos (started s) = 9"
  "pos s = 0 \<Longrightarrow> sink_data (sink (started s)) = sink_data (sink s) @ ''%PDF-1.7\<newline>''"
  by (simp_all add: started_def)

subsection \<open>Pages with a given parent\<close>

lemma write_page_plain:
  "ready s \<Longrightarrow>
   write_page oid None None pid None s =
     (Inr (object_id oid (take_parent pid s)),
      emit (object_bytes (object_id oid (take_parent pid s))
              (dict_bytes [entry_bytes ''Type'' ''/Page'',
                           entry_bytes ''Parent'' (ref_bytes (page_parent pid s))]))
        ((take_id oid (take_parent pid s))
           \<lparr>page_ids := page_ids s @ [object_id oid (take_parent pid s)],
            xrefs := AList.update (object_id oid (take_parent pid s)) (pos s) (xrefs s)\<rparr>))"
  by (simp add: write_page_def start_object_ready start_dict_def start_dict_entry_def
      object_bytes_def dict_bytes_def entry_bytes_def ref_bytes_def)

lemma parent_stable:
  "write_stable (\<lambda>s. good s \<and> page_tree_root_id s = None \<and> p < id_stream s)"
  "alloc_stable (\<lambda>s. good s \<and> page_tree_root_id s = None \<and> p < id_stream s)"
  "object_stable (\<lambda>s. good s \<and> page_tree_root_id s = None \<and> p < id_stream s)"
  by (simp_all add: write_stable_def alloc_stable_def object_stable_def good_def)

lemma write_page_plain_good:
  assumes "good s"
  shows "write_page oid None None pid None s =
     (Inr (object_id oid (take_parent pid s)),
      emit (object_bytes (object_id oid (take_parent pid s))
              (dict_bytes [entry_bytes ''Type'' ''/Page'',
                           entry_bytes ''Parent'' (ref_bytes (page_parent pid s))]))
        ((take_id oid (take_parent pid (started s)))
           \<lparr>page_ids := page_ids s @ [object_id oid (take_parent pid s)],
            xrefs := AList.update (object_id oid (take_parent pid s)) (pos (started s)) (xrefs s)\<rparr>))"
proof -
  have "object_id oid (take_parent pid (started s)) = object_id oid (take_parent pid s)"
    "page_parent pid (started s) = page_parent pid s"
    by (simp_all add: object_id_def take_parent_def page_parent_def split: option.splits)
  with write_page_plain [of "started s" oid pid] assms show ?thesis
    by (simp add: write_page_started [OF assms])
qed

lemma two_pages_state:
  "fst (exec dec None two_pages (fresh\<lparr>id_stream := 2\<rparr>)) = Inr ()"
  "good (snd (exec dec None two_pages (fresh\<lparr>id_stream := 2\<rparr>)))"
  "pos (snd (exec dec None two_pages (fresh\<lparr>id_stream := 2\<rparr>))) = 103"
  "xrefs (snd (exec dec None two_pages (fresh\<lparr>id_stream := 2\<rparr>))) = [(2, 9), (3, 56)]"
  "id_stream (snd (exec dec None two_pages (fresh\<lparr>id_stream := 2\<rparr>))) = 4"
  "page_ids (snd (exec dec None two_pages (fresh\<lparr>id_stream := 2\<rparr>))) = [2, 3]"
  "page_tree_root_id (snd (exec dec None two_pages (fresh\<lparr>id_stream := 2\<rparr>))) = None"
  "sink_data (sink (snd (exec dec None two_pages (fresh\<lparr>id_stream := 2\<rparr>)))) =
     ''%PDF-1.7\<newline>2 0 obj\<newline><<\<newline>/Type /Page\<newline>/Parent 1 0 R\<newline>>>\<newline>endobj\<newline>3 0 obj\<newline><<\<newline>/Type /Page\<newline>/Parent 1 0 R\<newline>>>\<newline>endobj\<newline>''"
  by (simp_all add: two_pages_def bind_def write_page_plain_good started_zero
      object_id_def take_id_def take_parent_def page_parent_def eval_simps)

subsection \<open>Image pages\<close>

lemma is_ascii_template [simp]: "is_ascii (CONTENT_STREAM_TEMPLATE w h)"
  by (simp add: CONTENT_STREAM_TEMPLATE_def)

lemma write'_fails: "\<not> good s \<Longrightarrow> \<exists>e. write' v s = (Inl e, s)"
  by (auto simp: write'_def good_def split: sum.splits)

lemma write'_not_good: "\<not> good s \<Longrightarrow> write' v s \<noteq> (Inr u, s')"
  using write'_fails [of s v] by auto

lemma start_object_needs_good: "start_object oid body s = (Inr r, s') \<Longrightarrow> good s"
proof (rule ccontr)
  assume run: "start_object oid body s = (Inr r, s')" and ng: "\<not> good s"
  then have ng': "\<not> good (s\<lparr>id_stream := i, xrefs := x\<rparr>)" "\<not> good (s\<lparr>xrefs := x\<rparr>)" for i x
    by simp_all
  from run show False
    by (cases oid)
      (auto simp: start_object_def bind_Inr_iff write_header_def write'_not_good [OF ng]
        write'_not_good [OF ng'(1)] write'_not_good [OF ng'(2)] split: if_splits)
qed

lemma write_image_page_decodes:
  assumes "write_image_page Image_open oid cb cid iid mb pid s = (Inr r, s')"
  shows "\<exists>img cs flt. Image_open cb = Inr img \<and>
           map_of MODE2COLOR_SPACE (im_mode img) = Some cs \<and>
           map_of FORMAT2FILTER (im_format img) = Some flt"
proof (cases "write_header s")
  case (Pair a s1)
  show ?thesis
  proof (cases a)
    case (Inl e)
    with Pair assms show ?thesis
      by (simp add: write_image_page_def)
  next
    case (Inr u)
    note h = Pair [unfolded Inr]
    show ?thesis
    proof (cases "Image_open cb")
      case (Inl e)
      with h assms show ?thesis
        by (simp add: write_image_page_def)
    next
      case (Inr img)
      obtain w h' where sz: "im_size img = (w, h')"
        by (cases "im_size img")
      show ?thesis
      proof (cases "map_of MODE2COLOR_SPACE (im_mode img)")
        case None
        with h Inr sz assms show ?thesis
          by (simp add: write_image_page_def getitem_def)
      next
        case (Some cs)
        show ?thesis
        proof (cases "map_of FORMAT2FILTER (im_format img)")
          case None
          with h Inr sz Some assms show ?thesis
            by (simp add: write_image_page_def getitem_def)
        next
          case (Some flt)
          with Inr \<open>map_of MODE2COLOR_SPACE (im_mode img) = Some cs\<close> show ?thesis
            by blast
        qed
      qed
    qed
  qed
qed

lemma write_image_page_needs_good:
  assumes "write_image_page Image_open oid cb cid iid mb pid s = (Inr r, s')"
  shows "good s"
proof (rule ccontr)
  assume ng: "\<not> good s"
  from write_image_page_decodes [OF assms] obtain img cs flt where
    d: "Image_open cb = Inr img" "map_of MODE2COLOR_SPACE (im_mode img) = Some cs"
       "map_of FORMAT2FILTER (im_format img) = Some flt"
    by blast
  obtain w h where sz: "im_size img = (w, h)"
    by (cases "im_size img")
  show False
  proof (cases "pos s = 0")
    case True
    with ng assms write'_fails [OF ng, of "PyBytes ''%PDF-1.7\<newline>''"] show False
      by (auto simp: write_image_page_def write_header_def)
  next
    case False
    with assms d sz ng show False
      by (auto simp: write_image_page_def getitem_def bind_Inr_iff Let_def
          dest!: start_object_needs_good)
  qed
qed

lemma take_id_emit [simp]: "take_id oid (emit b s) = emit b (take_id oid s)"
  by (simp add: take_id_def split: option.splits)

lemma take_id_xrefs [simp]: "take_id oid (s\<lparr>xrefs := x\<rparr>) = (take_id oid s)\<lparr>xrefs := x\<rparr>"
  by (simp add: take_id_def split: option.splits)

lemma object_id_simps [simp]:
  "object_id oid (emit b s) = object_id oid s"
  "object_id oid (s\<lparr>xrefs := x\<rparr>) = object_id oid s"
  by (simp_all add: object_id_def split: option.splits)

lemma write_image_page_ready:
  assumes "ready s" and "Image_open cb = Inr img" and "im_size img = (w, h)"
    and "map_of MODE2COLOR_SPACE (im_mode img) = Some cs"
    and "map_of FORMAT2FILTER (im_format img) = Some flt"
  shows "write_image_page Image_open oid cb cid iid mb pid s =
     write_page oid (Some (Single (object_id cid (take_id iid s))))
       (Some (case mb of None \<Rightarrow> (PyInt 0, PyInt 0, PyInt w, PyInt h) | Some m \<Rightarrow> m)) pid
       (Some (PyStr (''<< /XObject << /Img '' @ str_int (object_id iid s) @ '' 0 R >> >>'')))
       (emit (image_object_bytes (object_id iid s) w h cs flt (int (length cb)) cb @
              content_object_bytes (object_id cid (take_id iid s))
                (int (length (CONTENT_STREAM_TEMPLATE w h))) (CONTENT_STREAM_TEMPLATE w h))
          ((take_id cid (take_id iid s))
             \<lparr>xrefs := AList.update (object_id cid (take_id iid s))
                (pos s + length (image_object_bytes (object_id iid s) w h cs flt (int (length cb)) cb))
                (AList.update (object_id iid s) (pos s) (xrefs s))\<rparr>))"
  using assms
  by (simp add: write_image_page_def Let_def getitem_def start_object_ready start_dict_def
      start_dict_entry_def start_stream_def image_object_bytes_def content_object_bytes_def
      object_bytes_def dict_bytes_def entry_bytes_def stream_bytes_def)


lemma write_image_page_started:
  "good s \<Longrightarrow> write_image_page Image_open oid cb cid iid mb pid s =
     write_image_page Image_open oid cb cid iid mb pid (started s)"
  by (simp add: write_image_page_def write_header_started)

lemma write_page_image_form:
  assumes "ready s" and "is_ascii res"
  shows "fst (write_page oid (Some (Single c)) (Some (PyInt a, PyInt b, PyInt w, PyInt h)) pid
                (Some (PyStr res)) s) = Inr (object_id oid (take_parent pid s))"
    and "sink_data (sink (snd (write_page oid (Some (Single c))
                (Some (PyInt a, PyInt b, PyInt w, PyInt h)) pid (Some (PyStr res)) s))) =
           sink_data (sink s) @
           image_page_bytes (object_id oid (take_parent pid s)) (page_parent pid s) res
             [str_int a, str_int b, str_int w, str_int h] c"
    and "page_ids (snd (write_page oid (Some (Single c))
                (Some (PyInt a, PyInt b, PyInt w, PyInt h)) pid (Some (PyStr res)) s)) =
           page_ids s @ [object_id oid (take_parent pid s)]"
  using assms
  by (simp_all add: write_page_def start_object_ready start_dict_def start_dict_entry_def
      start_array_def start_array_element_ready image_page_bytes_def object_bytes_def
      dict_bytes_def entry_bytes_def array_bytes_def ref_bytes_def)

lemma prefix_stable:
  "write_stable (\<lambda>s. prefix d (sink_data (sink s)))"
  "alloc_stable (\<lambda>s. prefix d (sink_data (sink s)))"
  "object_stable (\<lambda>s. prefix d (sink_data (sink s)))"
  "root_stable (\<lambda>s. prefix d (sink_data (sink s)))"
  by (simp_all add: write_stable_def alloc_stable_def object_stable_def root_stable_def
      prefix_prefix)

lemma write_page_appends:
  assumes "write_page oid cid mb pid res s = (Inr r, s')"
  shows "\<exists>rest. sink_data (sink s') = sink_data (sink s) @ rest"
proof -
  have "preserves (\<lambda>t. prefix (sink_data (sink s)) (sink_data (sink t)))
          (write_page oid cid mb pid res)"
    by (rule preserves_write_page) (simp_all add: prefix_stable)
  from preservesD [OF this _ assms] show ?thesis
    by (auto simp: prefix_def)
qed

lemma image_page_fresh:
  "fst (write_image_page gray_decoder None ''abcde'' None None None None fresh) = Inr 4"
  "sink_data (sink (snd (write_image_page gray_decoder None ''abcde'' None None None None fresh))) =
     ''%PDF-1.7\<newline>1 0 obj\<newline><<\<newline>/Type /XObject\<newline>/Subtype /Image\<newline>/Width 2\<newline>/Height 3\<newline>/ColorSpace /DeviceGray\<newline>/BitsPerComponent 8\<newline>/Length 5\<newline>/Filter /DCTDecode\<newline>>>\<newline>stream\<newline>abcde\<newline>endstream\<newline>endobj\<newline>2 0 obj\<newline><<\<newline>/Length 26\<newline>>>\<newline>stream\<newline>q\<newline>2 0 0 3 0 0 cm\<newline>/Img Do\<newline>Q\<newline>endstream\<newline>endobj\<newline>4 0 obj\<newline><<\<newline>/Type /Page\<newline>/Parent 3 0 R\<newline>/Resources << /XObject << /Img 1 0 R >> >>\<newline>/MediaBox [0 0 2 3]\<newline>/Contents 2 0 R\<newline>>>\<newline>endobj\<newline>''"
proof -
  let ?f = "started fresh"
  define s2 where "s2 =
     emit (image_object_bytes (object_id None ?f) 2 3 ''/DeviceGray'' ''/DCTDecode''
             (int (length ''abcde'')) ''abcde'' @
           content_object_bytes (object_id None (take_id None ?f))
             (int (length (CONTENT_STREAM_TEMPLATE 2 3))) (CONTENT_STREAM_TEMPLATE 2 3))
       ((take_id None (take_id None ?f))
          \<lparr>xrefs := AList.update (object_id None (take_id None ?f))
             (pos ?f + length (image_object_bytes (object_id None ?f) 2 3 ''/DeviceGray''
                ''/DCTDecode'' (int (length ''abcde'')) ''abcde''))
             (AList.update (object_id None ?f) (pos ?f) (xrefs ?f))\<rparr>)"
  have e: "write_image_page gray_decoder None ''abcde'' None None None None fresh =
     write_page None (Some (Single 2)) (Some (PyInt 0, PyInt 0, PyInt 2, PyInt 3)) None
       (Some (PyStr ''<< /XObject << /Img 1 0 R >> >>'')) s2"
    unfolding s2_def write_image_page_started [OF good_fresh]
    by (subst write_image_page_ready [where img = gray_image and w = 2 and h = 3
          and cs = "''/DeviceGray''" and flt = "''/DCTDecode''"])
      (simp_all add: gray_decoder_def gray_image_def MODE2COLOR_SPACE_def FORMAT2FILTER_def
        object_id_def take_id_def eval_simps)
  have r: "ready s2"
    by (simp add: s2_def)
  have f: "page_tree_root_id s2 = None" "id_stream s2 = 3"
    "sink_data (sink s2) =
       ''%PDF-1.7\<newline>1 0 obj\<newline><<\<newline>/Type /XObject\<newline>/Subtype /Image\<newline>/Width 2\<newline>/Height 3\<newline>/ColorSpace /DeviceGray\<newline>/BitsPerComponent 8\<newline>/Length 5\<newline>/Filter /DCTDecode\<newline>>>\<newline>stream\<newline>abcde\<newline>endstream\<newline>endobj\<newline>2 0 obj\<newline><<\<newline>/Length 26\<newline>>>\<newline>stream\<newline>q\<newline>2 0 0 3 0 0 cm\<newline>/Img Do\<newline>Q\<newline>endstream\<newline>endobj\<newline>''"
    by (simp_all add: s2_def started_fresh object_id_def take_id_def image_object_bytes_def
        content_object_bytes_def CONTENT_STREAM_TEMPLATE_def eval_simps)
  have a: "is_ascii ''<< /XObject << /Img 1 0 R >> >>''"
    by simp
  from write_page_image_form(1) [OF r a, of None 2 0 0 2 3 None] f
  show "fst (write_image_page gray_decoder None ''abcde'' None None None None fresh) = Inr 4"
    by (simp add: e object_id_def take_parent_def)
  from write_page_image_form(2) [OF r a, of None 2 0 0 2 3 None] f
  show "sink_data (sink (snd (write_image_page gray_decoder None ''abcde'' None None None None fresh))) =
     ''%PDF-1.7\<newline>1 0 obj\<newline><<\<newline>/Type /XObject\<newline>/Subtype /Image\<newline>/Width 2\<newline>/Height 3\<newline>/ColorSpace /DeviceGray\<newline>/BitsPerComponent 8\<newline>/Length 5\<newline>/Filter /DCTDecode\<newline>>>\<newline>stream\<newline>abcde\<newline>endstream\<newline>endobj\<newline>2 0 obj\<newline><<\<newline>/Length 26\<newline>>>\<newline>stream\<newline>q\<newline>2 0 0 3 0 0 cm\<newline>/Img Do\<newline>Q\<newline>endstream\<newline>endobj\<newline>4 0 obj\<newline><<\<newline>/Type /Page\<newline>/Parent 3 0 R\<newline>/Resources << /XObject << /Img 1 0 R >> >>\<newline>/MediaBox [0 0 2 3]\<newline>/Contents 2 0 R\<newline>>>\<newline>endobj\<newline>''"
    by (simp add: e object_id_def take_parent_def page_parent_def image_page_bytes_def eval_simps)
qed

section \<open>The claims\<close>

subsection \<open>C1: a reserved parent id\<close>

text \<open>
  C1, as amended. Let a caller take an id \<open>p\<close> from \<open>next_object_id\<close> on an open
  writer that has no tree-root id yet, and then run any write sequence that passes \<open>p\<close>
  as \<open>parent_id\<close> to every \<open>write_page\<close> and \<open>write_image_page\<close>, does not close
  the writer, and in which no call raises. Then \<open>close\<close> returns and appends one
  page-tree object, followed by the catalog that refers to it, the cross-reference table,
  the trailer, \<open>startxref\<close> and the end marker. The id of that page-tree object is the
  id the allocator yields at close; it is greater than \<open>p\<close>, so it is not the id the
  pages name as their parent. The writer does not record \<open>p\<close> as its tree root.
\<close>

theorem reserved_parent_is_not_the_tree_root:
  assumes "good s0" and "page_tree_root_id s0 = None"
    and "next_object_id s0 = (Inr p, s1)"
    and "parented p c"
    and "exec dec None c s1 = (Inr (), s)"
  shows "close s = (Inr (), snd (close s)) \<and>
     sink_data (sink (snd (close s))) =
       sink_data (sink (started s)) @
       page_tree_bytes (id_stream s) (page_ids s) @
       catalog_bytes (id_stream s + 1) (id_stream s) @
       xref_bytes (xrefs (snd (close s))) @
       trailer_bytes (int (length (xrefs (snd (close s)))) + 1) (id_stream s + 1) @
       startxref_bytes (pos (started s) + length (page_tree_bytes (id_stream s) (page_ids s)) +
         length (catalog_bytes (id_stream s + 1) (id_stream s))) @
       ''%%EOF'' \<and>
     page_tree_root_id (snd (close s)) = Some (id_stream s) \<and>
     p < id_stream s"
proof -
  let ?I = "\<lambda>s. good s \<and> page_tree_root_id s = None \<and> p < id_stream s"
  from assms(1-3) have i: "?I s1"
    by (auto simp: good_def)
  have "preserves ?I (exec dec None c)"
    using assms(4) by (intro preserves_exec [where p = p]) (simp_all add: parent_stable)
  from preservesD [OF this i assms(5)] have "?I s" .
  then have g: "good s" and r: "page_tree_root_id s = None" and p: "p < id_stream s"
    by simp_all
  from close_good_snd [OF g] r p show ?thesis
    by (simp add: final_simps)
qed


theorem reserved_parent_is_not_the_tree_root_witness:
  "good fresh \<and> page_tree_root_id fresh = None \<and>
   next_object_id fresh = (Inr 1, fresh\<lparr>id_stream := 2\<rparr>) \<and>
   parented 1 two_pages \<and>
   exec gray_decoder None two_pages (fresh\<lparr>id_stream := 2\<rparr>) =
     (Inr (), snd (exec gray_decoder None two_pages (fresh\<lparr>id_stream := 2\<rparr>))) \<and>
   page_tree_root_id (snd (close (snd (exec gray_decoder None two_pages (fresh\<lparr>id_stream := 2\<rparr>))))) =
     Some 4 \<and>
   sink_data (sink (snd (close (snd (exec gray_decoder None two_pages (fresh\<lparr>id_stream := 2\<rparr>)))))) =
     ''%PDF-1.7\<newline>2 0 obj\<newline><<\<newline>/Type /Page\<newline>/Parent 1 0 R\<newline>>>\<newline>endobj\<newline>3 0 obj\<newline><<\<newline>/Type /Page\<newline>/Parent 1 0 R\<newline>>>\<newline>endobj\<newline>4 0 obj\<newline><<\<newline>/Type /Pages\<newline>/Kids [2 0 R 3 0 R]\<newline>/Count 2\<newline>>>\<newline>endobj\<newline>5 0 obj\<newline><<\<newline>/Type /Catalog\<newline>/Pages 4 0 R\<newline>>>\<newline>endobj\<newline>xref\<newline>0 1\<newline>0000000000 65535 f \<newline>2 1\<newline>0000000009 00000 n \<newline>3 1\<newline>0000000056 00000 n \<newline>4 1\<newline>0000000103 00000 n \<newline>5 1\<newline>0000000166 00000 n \<newline>trailer\<newline><<\<newline>/Size 5\<newline>/Root 5 0 R\<newline>>>\<newline>startxref\<newline>215\<newline>%%EOF''"
proof -
  let ?s = "snd (exec gray_decoder None two_pages (fresh\<lparr>id_stream := 2\<rparr>))"
  have n: "next_object_id fresh = (Inr 1, fresh\<lparr>id_stream := 2\<rparr>)"
    by simp
  have p: "parented 1 two_pages"
    by (simp add: two_pages_def)
  have run: "exec gray_decoder None two_pages (fresh\<lparr>id_stream := 2\<rparr>) = (Inr (), ?s)"
    using two_pages_state(1) [of gray_decoder] by (simp add: prod_eq_iff)
  have r: "ready ?s"
    using two_pages_state(2,3) [of gray_decoder] by (simp add: ready_def)
  from reserved_parent_is_not_the_tree_root [OF good_fresh fresh_fields(5) n p run]
    close_good_snd(3) [OF two_pages_state(2), of gray_decoder] n p run r
  show ?thesis
    by (simp add: two_pages_state final_simps eval_simps)
qed

text \<open>
  The claim as stated fails on the smallest such sequence: after \<open>next_object_id\<close>
  (which yields 1), one page with parent 1 and \<open>close\<close>, the page is object 2 with
  \<open>/Parent 1 0 R\<close>, the page-tree object is object 3, the catalog points to 3, and no
  object 1 exists.
\<close>

theorem reserved_parent_counterexample:
  "fst (next_object_id fresh) = Inr 1 \<and>
   fst (exec gray_decoder None
          (Seq NextObjectId (Seq (WritePage None None None (Some 1) None) Close)) fresh) = Inr () \<and>
   page_tree_root_id (snd (exec gray_decoder None
          (Seq NextObjectId (Seq (WritePage None None None (Some 1) None) Close)) fresh)) = Some 3 \<and>
   xrefs (snd (exec gray_decoder None
          (Seq NextObjectId (Seq (WritePage None None None (Some 1) None) Close)) fresh)) =
     [(2, 9), (3, 56), (4, 113)] \<and>
   sink_data (sink (snd (exec gray_decoder None
          (Seq NextObjectId (Seq (WritePage None None None (Some 1) None) Close)) fresh))) =
     ''%PDF-1.7\<newline>2 0 obj\<newline><<\<newline>/Type /Page\<newline>/Parent 1 0 R\<newline>>>\<newline>endobj\<newline>3 0 obj\<newline><<\<newline>/Type /Pages\<newline>/Kids [2 0 R]\<newline>/Count 1\<newline>>>\<newline>endobj\<newline>4 0 obj\<newline><<\<newline>/Type /Catalog\<newline>/Pages 3 0 R\<newline>>>\<newline>endobj\<newline>xref\<newline>0 1\<newline>0000000000 65535 f \<newline>2 1\<newline>0000000009 00000 n \<newline>3 1\<newline>0000000056 00000 n \<newline>4 1\<newline>0000000113 00000 n \<newline>trailer\<newline><<\<newline>/Size 4\<newline>/Root 4 0 R\<newline>>>\<newline>startxref\<newline>162\<newline>%%EOF''"
proof -
  let ?t = "emit (object_bytes 2 (dict_bytes [entry_bytes ''Type'' ''/Page'',
                                              entry_bytes ''Parent'' (ref_bytes 1)]))
              ((started (fresh\<lparr>id_stream := 2\<rparr>))\<lparr>id_stream := 3, page_ids := [2], xrefs := [(2, 9)]\<rparr>)"
  have e: "exec gray_decoder None
          (Seq NextObjectId (Seq (WritePage None None None (Some 1) None) Close)) fresh = close ?t"
    by (simp add: bind_def write_page_plain_good started_zero
        object_id_def take_id_def take_parent_def page_parent_def)
  have g: "good ?t"
    by simp
  have t: "started ?t = ?t" "pos ?t = 56"
    "sink_data (sink ?t) = ''%PDF-1.7\<newline>2 0 obj\<newline><<\<newline>/Type /Page\<newline>/Parent 1 0 R\<newline>>>\<newline>endobj\<newline>''"
    by (simp_all add: started_zero eval_simps)
  from close_good_snd [OF g] show ?thesis
    unfolding e by (simp add: t started_zero final_simps eval_simps)
qed

subsection \<open>C2: the value \<open>write_page\<close> returns\<close>

text \<open>
  C2. On a new writer, \<open>write_page\<close> with the content-stream ids 5 and 6 reserves the
  tree-root id 1, emits the page as object 2 at offset 9 and appends 2 to the page list,
  but returns 6: the loop \<open>for id in contents_id\<close> has overwritten the variable that
  \<open>return id\<close> reads. The claim (the value returned is the id of the page object, the
  one appended to the page list) fails here.
\<close>

theorem write_page_returns_last_content_id:
  "fst (write_page None (Some (Several [5, 6])) None None None fresh) = Inr 6 \<and>
   page_ids (snd (write_page None (Some (Several [5, 6])) None None None fresh)) = [2] \<and>
   xrefs (snd (write_page None (Some (Several [5, 6])) None None None fresh)) = [(2, 9)]"
  using write_page_several [of "started fresh" None "[5, 6]" None]
    write_page_started [OF good_fresh, of None "Some (Several [5, 6])" None None None]
  by (simp add: after_for_def object_id_def take_parent_def started_fresh)

subsection \<open>C3: writing after close\<close>

text \<open>
  C3, as amended. Let \<open>s\<close> be the writer after a call of \<open>close\<close> that returned. Then
  \<open>write_page\<close>, \<open>start_object\<close>, \<open>start_dict\<close>, \<open>start_array\<close> and
  \<open>start_stream\<close> fail with the error of a closed writer (the \<open>RuntimeError\<close> raised by
  \<open>_write\<close>, which the specification calls \<open>WriterClosedError\<close>), whatever their
  arguments and blocks, and leave the destination as it is. \<open>write_image_page\<close> fails
  as well and leaves the destination as it is; its error is the one of a closed writer
  when the decoder reads the image and its mode and format are recognized, and otherwise
  the error of the decoder or of the failed lookup, which come first.
\<close>

theorem closed_writer_rejects_writes:
  assumes "close s0 = (Inr (), s)"
  shows
    "(fst (write_page oid cid mb pid res s) = Inl (RuntimeError ''PDF writer is closed'') \<and>
      sink (snd (write_page oid cid mb pid res s)) = sink s) \<and>
     (fst (start_object oid' body1 s) = Inl (RuntimeError ''PDF writer is closed'') \<and>
      sink (snd (start_object oid' body1 s)) = sink s) \<and>
     (fst (start_dict body2 s) = Inl (RuntimeError ''PDF writer is closed'') \<and>
      sink (snd (start_dict body2 s)) = sink s) \<and>
     (fst (start_array body3 s) = Inl (RuntimeError ''PDF writer is closed'') \<and>
      sink (snd (start_array body3 s)) = sink s) \<and>
     (fst (start_stream body4 s) = Inl (RuntimeError ''PDF writer is closed'') \<and>
      sink (snd (start_stream body4 s)) = sink s) \<and>
     (sink (snd (write_image_page Image_open oid'' cb cid' iid mb' pid' s)) = sink s \<and>
      fst (write_image_page Image_open oid'' cb cid' iid mb' pid' s) =
        Inl (if pos s = 0 then RuntimeError ''PDF writer is closed''
             else case Image_open cb of
                 Inl e \<Rightarrow> e
               | Inr img \<Rightarrow>
                   (case map_of MODE2COLOR_SPACE (im_mode img) of
                      None \<Rightarrow> KeyError (im_mode img)
                    | Some _ \<Rightarrow>
                        (case map_of FORMAT2FILTER (im_format img) of
                           None \<Rightarrow> KeyError (im_format img)
                         | Some _ \<Rightarrow> RuntimeError ''PDF writer is closed''))))"
proof -
  from close_success [OF assms] have c: "\<not> out s" by simp
  show ?thesis
    using write_page_not_out [OF c] start_object_not_out [OF c] start_dict_not_out [OF c]
      start_array_not_out [OF c] start_stream_not_out [OF c] write_image_page_not_out [OF c]
    by blast
qed

theorem closed_writer_rejects_writes_witness:
  "close fresh = (Inr (), snd (close fresh)) \<and>
   fst (write_page None None None None None (snd (close fresh))) =
     Inl (RuntimeError ''PDF writer is closed'') \<and>
   sink (snd (write_page None None None None None (snd (close fresh)))) = sink (snd (close fresh)) \<and>
   fst (start_stream (ret ()) (snd (close fresh))) = Inl (RuntimeError ''PDF writer is closed'') \<and>
   fst (write_image_page (\<lambda>_. Inr gray_image) None ''abc'' None None None None (snd (close fresh))) =
     Inl (RuntimeError ''PDF writer is closed'')"
  using closed_writer_rejects_writes [OF closed_fresh(3), of None None None None None
      None "\<lambda>_. ret ()" "\<lambda>_. ret ()" "\<lambda>_. ret ()" "ret ()"
      "\<lambda>_. Inr gray_image" None "''abc''" None None None None]
    closed_fresh
  by (simp add: gray_image_def MODE2COLOR_SPACE_def FORMAT2FILTER_def)

text \<open>
  The claim as stated fails for \<open>write_image_page\<close>: on a closed writer an image in
  mode CMYK is refused with the \<open>KeyError\<close> of the mode lookup, not with the error of a
  closed writer.
\<close>

theorem closed_writer_image_counterexample:
  "close fresh = (Inr (), snd (close fresh)) \<and>
   fst (write_image_page (\<lambda>_. Inr cmyk_image) None [] None None None None (snd (close fresh))) =
     Inl (KeyError ''CMYK'')"
  using write_image_page_not_out [OF closed_fresh(1), of "\<lambda>_. Inr cmyk_image" None "[]" None None None None]
    closed_fresh
  by (simp add: cmyk_image_def MODE2COLOR_SPACE_def)

subsection \<open>C4: unrecognized images\<close>

text \<open>
  C4, as amended. Let the decoder read the image and report a colour mode outside
  \<open>MODE2COLOR_SPACE\<close> or a format outside \<open>FORMAT2FILTER\<close>. Then \<open>write_image_page\<close>
  fails, with any writer and any other arguments. When its first step, writing the header
  if none is written yet, succeeds, the error is the \<open>KeyError\<close> of the failed lookup
  (mode first; the specification calls it \<open>UnsupportedImageFormatError\<close>), and the
  writer is as that step left it: no object is started, no id is taken, and nothing but
  the header is written. When the header cannot be written, the call fails with the error
  of that write instead.
\<close>

theorem unrecognized_image_fails:
  assumes "Image_open cb = Inr img"
    and "map_of MODE2COLOR_SPACE (im_mode img) = None \<or> map_of FORMAT2FILTER (im_format img) = None"
  shows "write_image_page Image_open oid cb cid iid mb pid s =
     (case write_header s of
        (Inl e, s1) \<Rightarrow> (Inl e, s1)
      | (Inr u, s1) \<Rightarrow>
          (Inl (KeyError (if map_of MODE2COLOR_SPACE (im_mode img) = None then im_mode img
                          else im_format img)), s1))"
proof (cases "write_header s")
  case (Pair r s1)
  show ?thesis
  proof (cases r)
    case (Inl e)
    with Pair show ?thesis by (simp add: write_image_page_def)
  next
    case (Inr u)
    with Pair assms show ?thesis
      by (auto simp: write_image_page_def getitem_def split: prod.splits option.splits)
  qed
qed

theorem unrecognized_image_fails_witness:
  "write_image_page (\<lambda>_. Inr cmyk_image) None ''abc'' None None None None fresh =
     (Inl (KeyError ''CMYK''), started fresh) \<and>
   sink_data (sink (started fresh)) = ''%PDF-1.7\<newline>'' \<and> xrefs (started fresh) = [] \<and>
   id_stream (started fresh) = 1"
  using unrecognized_image_fails [of "\<lambda>_. Inr cmyk_image" "''abc''" cmyk_image None None None None None fresh]
  by (simp add: cmyk_image_def MODE2COLOR_SPACE_def write_header_started started_fresh)

text \<open>
  The claim as stated fails on a writer that was given no destination and has written
  nothing: the header write comes first and raises the error of a closed writer.
\<close>

theorem unrecognized_image_counterexample:
  "write_image_page (\<lambda>_. Inr cmyk_image) None ''abc'' None None None None no_sink =
     (Inl (RuntimeError ''PDF writer is closed''), no_sink)"
  by (simp add: write_image_page_def)

subsection \<open>C5: closing tokens\<close>

text \<open>
  C5, as amended. A scope (array, dictionary, indirect object, stream) entered on an open
  writer ends in one of three ways, decided by its block. When the block is left without an
  exception (it reaches its end, or returns early; its value \<open>v\<close> stands for either) and
  the writer is still open, the closing token is appended after the bytes of the block and
  the scope yields \<open>v\<close>. When the block is left without an exception but the writer is no
  longer open, the write of the closing token is refused and the scope fails with that
  error. When the block raises, the closing token is not written: the scope fails with
  the error of the block, and writer and destination stay as the block left them, the
  opening token unmatched.
\<close>

theorem scope_closers:
  assumes "good s"
  shows
    "start_array body1 s =
       (case body1 (start_array_element (frames s)) (in_array s) of
          (Inl e, t) \<Rightarrow> (Inl e, t)
        | (Inr v, t) \<Rightarrow>
            if good t then (Inr v, emit '']'' t) else (Inl (write_refusal t), t)) \<and>
     start_dict body2 s =
       (case body2 start_dict_entry (in_dict s) of
          (Inl e, t) \<Rightarrow> (Inl e, t)
        | (Inr v, t) \<Rightarrow>
            if good t then (Inr v, emit ''>>\<newline>'' t) else (Inl (write_refusal t), t)) \<and>
     start_object oid body3 s =
       (case body3 (object_id oid s) (in_object oid s) of
          (Inl e, t) \<Rightarrow> (Inl e, t)
        | (Inr v, t) \<Rightarrow>
            if good t then (Inr v, emit ''endobj\<newline>'' t) else (Inl (write_refusal t), t)) \<and>
     start_stream body4 s =
       (case body4 (in_stream s) of
          (Inl e, t) \<Rightarrow> (Inl e, t)
        | (Inr v, t) \<Rightarrow>
            if good t then (Inr v, emit ''\<newline>endstream\<newline>'' t)
            else (Inl (write_refusal t), t))"
  using assms
  by (simp add: start_array_good start_dict_good start_object_good start_stream_good)

theorem scope_closers_witness:
  "good fresh \<and>
   fst (start_array (\<lambda>el. bind (el (write' (PyInt 1))) (\<lambda>_. el (write' (PyInt 2)))) fresh) = Inr () \<and>
   sink_data (sink (snd (start_array
       (\<lambda>el. bind (el (write' (PyInt 1))) (\<lambda>_. el (write' (PyInt 2)))) fresh))) =
     ''%PDF-1.7\<newline>[1 2]'' \<and>
   sink_data (sink (snd (start_dict (\<lambda>entry. entry (PyBytes ''Type'') (write' (PyBytes ''/Page'')))
       fresh))) = ''%PDF-1.7\<newline><<\<newline>/Type /Page\<newline>>>\<newline>'' \<and>
   sink_data (sink (snd (start_object (Some 4) (\<lambda>_. ret ()) fresh))) =
     ''%PDF-1.7\<newline>4 0 obj\<newline>endobj\<newline>'' \<and>
   fst (start_stream (raise (KeyError ''boom'') :: unit action) fresh) = Inl (KeyError ''boom'') \<and>
   sink_data (sink (snd (start_stream (raise (KeyError ''boom'') :: unit action) fresh))) =
     ''%PDF-1.7\<newline>stream\<newline>''"
  using scope_closers [OF good_fresh,
      of "\<lambda>el. bind (el (write' (PyInt 1))) (\<lambda>_. el (write' (PyInt 2)))"
         "\<lambda>entry. entry (PyBytes ''Type'') (write' (PyBytes ''/Page''))"
         "Some 4" "\<lambda>_. ret ()" "raise (KeyError ''boom'') :: unit action"]
  by (simp add: in_array_def in_dict_def in_object_def in_stream_def start_array_element_ready
      start_dict_entry_def started_fresh object_id_def take_id_def eval_simps)

text \<open>
  The claim as stated fails when the block raises: an array scope whose block writes one
  element and then raises leaves \<open>[1\<close> in the destination, without the closing bracket.
\<close>

theorem raising_block_counterexample:
  "fst (start_array (\<lambda>el. bind (el (write' (PyInt 1))) (\<lambda>_. raise (KeyError ''boom''))) fresh :: (error + unit) \<times> PdfWriter) =
     Inl (KeyError ''boom'') \<and>
   sink_data (sink (snd (start_array (\<lambda>el. bind (el (write' (PyInt 1))) (\<lambda>_. raise (KeyError ''boom''))) fresh :: (error + unit) \<times> PdfWriter))) =
     ''%PDF-1.7\<newline>[1''"
  by (simp add: start_array_def write_header_started start_array_element_ready started_fresh
      eval_simps)

subsection \<open>C6: the offsets of the cross-reference table\<close>




subsection \<open>C7: the size in the trailer\<close>

text \<open>
  C7, as amended. Take any write sequence on a new writer with an open destination in
  which no call raised and after which the writer still holds its destination. Then
  \<open>close\<close> returns, and what it appends is the page-tree object, the catalog, the
  cross-reference table, the trailer, \<open>startxref\<close> and the end marker, the \<open>Size\<close> in
  the trailer being the number of distinct ids in the cross-reference dictionary plus 1.
  These ids are the ids started as objects: those started before, the page tree and the
  catalog. An id that was allocated and never started has no entry and is not counted.
\<close>

theorem trailer_size_counts_started_objects:
  assumes "\<not> sink_closed dest"
    and "exec dec None c (PdfWriter_init dest True own) = (Inr (), s)"
    and "out s"
  shows "close s = (Inr (), snd (close s)) \<and>
     sink_data (sink (snd (close s))) =
       sink_data (sink (started s)) @
       page_tree_bytes (final_root (started s)) (page_ids s) @
       catalog_bytes (final_catalog (started s)) (final_root (started s)) @
       xref_bytes (xrefs (snd (close s))) @
       trailer_bytes (int (card (fst ` set (xrefs (snd (close s))))) + 1) (final_catalog (started s)) @
       startxref_bytes (pos (started s) +
         length (page_tree_bytes (final_root (started s)) (page_ids s)) +
         length (catalog_bytes (final_catalog (started s)) (final_root (started s)))) @
       ''%%EOF'' \<and>
     fst ` set (xrefs (snd (close s))) =
       insert (final_catalog (started s)) (insert (final_root (started s)) (fst ` set (xrefs s)))"
proof -
  from exec_open [OF assms(2,1,3)] have g: "good s" .
  from exec_distinct_ids [OF assms(2)] have "distinct (map fst (xrefs (started s)))"
    by simp
  then have "distinct (map fst (final_xrefs (started s)))"
    by (rule final_xrefs_distinct)
  then have len: "length (final_xrefs (started s)) = card (fst ` set (final_xrefs (started s)))"
    by (rule length_card_ids)
  from close_good [OF g] obtain s' where
    c: "close s = (Inr (), s')" and
    d: "sink_data (sink s') = sink_data (sink (started s)) @ finalization_bytes (started s)" and
    x: "xrefs s' = final_xrefs (started s)"
    by blast
  from c d x len show ?thesis
    by (simp add: finalization_bytes_def final_xrefs_ids)
qed


theorem trailer_size_counts_started_objects_witness:
  "\<not> sink_closed empty_sink \<and>
   exec gray_decoder None two_objects (PdfWriter_init empty_sink True True) =
     (Inr (), snd (exec gray_decoder None two_objects fresh)) \<and>
   out (snd (exec gray_decoder None two_objects fresh)) \<and>
   fst ` set (xrefs (snd (close (snd (exec gray_decoder None two_objects fresh))))) = {1, 2, 3, 5} \<and>
   sink_data (sink (snd (close (snd (exec gray_decoder None two_objects fresh))))) =
     ''%PDF-1.7\<newline>5 0 obj\<newline>null\<newline>endobj\<newline>1 0 obj\<newline>endobj\<newline>2 0 obj\<newline><<\<newline>/Type /Pages\<newline>/Kids []\<newline>/Count 0\<newline>>>\<newline>endobj\<newline>3 0 obj\<newline><<\<newline>/Type /Catalog\<newline>/Pages 2 0 R\<newline>>>\<newline>endobj\<newline>xref\<newline>0 1\<newline>0000000000 65535 f \<newline>1 1\<newline>0000000029 00000 n \<newline>2 1\<newline>0000000044 00000 n \<newline>3 1\<newline>0000000096 00000 n \<newline>5 1\<newline>0000000009 00000 n \<newline>trailer\<newline><<\<newline>/Size 5\<newline>/Root 3 0 R\<newline>>>\<newline>startxref\<newline>145\<newline>%%EOF''"
proof -
  let ?s = "snd (exec gray_decoder None two_objects fresh)"
  have c: "\<not> sink_closed empty_sink"
    by (simp add: empty_sink_def)
  have run: "exec gray_decoder None two_objects (PdfWriter_init empty_sink True True) = (Inr (), ?s)"
    using two_objects_state(1) [of gray_decoder]
    by (simp add: fresh_def [symmetric] prod_eq_iff)
  note o = two_objects_state(3) [of gray_decoder]
  have g: "good ?s"
    using two_objects_state(2) by (rule ready_good)
  from trailer_size_counts_started_objects [OF c run o] close_good_snd(3) [OF g] c run o
  show ?thesis
    by (simp add: two_objects_state final_simps eval_simps) auto
qed

text \<open>
  The claim as stated fails when an id is allocated and not started: after
  \<open>next_object_id\<close> (which yields 1) and \<open>close\<close> (page tree 2, catalog 3) three ids
  are allocated, and the trailer says \<open>/Size 3\<close>, not 4.
\<close>

theorem allocated_id_not_counted_counterexample:
  "fst (next_object_id fresh) = Inr 1 \<and>
   fst (exec gray_decoder None (Seq NextObjectId Close) fresh) = Inr () \<and>
   id_stream (snd (exec gray_decoder None (Seq NextObjectId Close) fresh)) = 4 \<and>
   xrefs (snd (exec gray_decoder None (Seq NextObjectId Close) fresh)) = [(2, 9), (3, 61)] \<and>
   sink_data (sink (snd (exec gray_decoder None (Seq NextObjectId Close) fresh))) =
     ''%PDF-1.7\<newline>2 0 obj\<newline><<\<newline>/Type /Pages\<newline>/Kids []\<newline>/Count 0\<newline>>>\<newline>endobj\<newline>3 0 obj\<newline><<\<newline>/Type /Catalog\<newline>/Pages 2 0 R\<newline>>>\<newline>endobj\<newline>xref\<newline>0 1\<newline>0000000000 65535 f \<newline>2 1\<newline>0000000009 00000 n \<newline>3 1\<newline>0000000061 00000 n \<newline>trailer\<newline><<\<newline>/Size 3\<newline>/Root 3 0 R\<newline>>>\<newline>startxref\<newline>110\<newline>%%EOF''"
proof -
  have g: "good (fresh\<lparr>id_stream := 2\<rparr>)"
    by simp
  have e: "exec gray_decoder None (Seq NextObjectId Close) fresh = close (fresh\<lparr>id_stream := 2\<rparr>)"
    by simp
  from close_good_snd [OF g] show ?thesis
    by (simp add: e started_zero final_simps eval_simps)
qed

subsection \<open>C8: the lengths of the two streams\<close>

text \<open>
  C8. Let a call of \<open>write_image_page\<close> return. Then the decoder read the image, mode
  and format are recognized, and what the call appended (after the header, if it had to
  write it) starts with the image-resource object and the content-stream object, followed
  by the rest \<open>rest\<close> of the output (the page object). In the image-resource object the
  value of \<open>/Length\<close> is the number of encoded bytes, and these bytes are what stands
  between \<open>stream\<close> and \<open>endstream\<close>; in the content-stream object the value of
  \<open>/Length\<close> is the length of the content program, and the program is what stands
  between \<open>stream\<close> and \<open>endstream\<close>.
\<close>

theorem stream_lengths_are_exact:
  assumes "write_image_page Image_open oid cb cid iid mb pid s = (Inr r, s')"
  shows "\<exists>img cs flt rest.
     Image_open cb = Inr img \<and>
     map_of MODE2COLOR_SPACE (im_mode img) = Some cs \<and>
     map_of FORMAT2FILTER (im_format img) = Some flt \<and>
     sink_data (sink s') =
       sink_data (sink (started s)) @
       image_object_bytes (object_id iid s) (fst (im_size img)) (snd (im_size img)) cs flt
         (int (length cb)) cb @
       content_object_bytes (object_id cid (take_id iid s))
         (int (length (CONTENT_STREAM_TEMPLATE (fst (im_size img)) (snd (im_size img)))))
         (CONTENT_STREAM_TEMPLATE (fst (im_size img)) (snd (im_size img))) @
       rest"
proof -
  from write_image_page_needs_good [OF assms] have g: "good s" .
  then have r: "ready (started s)"
    by simp
  from write_image_page_decodes [OF assms] obtain img cs flt where
    d: "Image_open cb = Inr img" "map_of MODE2COLOR_SPACE (im_mode img) = Some cs"
       "map_of FORMAT2FILTER (im_format img) = Some flt"
    by blast
  have sz: "im_size img = (fst (im_size img), snd (im_size img))"
    by simp
  from assms have "write_image_page Image_open oid cb cid iid mb pid (started s) = (Inr r, s')"
    by (simp add: write_image_page_started [OF g])
  then obtain rest where
    "sink_data (sink s') =
       (sink_data (sink (started s)) @
        image_object_bytes (object_id iid s) (fst (im_size img)) (snd (im_size img)) cs flt
          (int (length cb)) cb @
        content_object_bytes (object_id cid (take_id iid s))
          (int (length (CONTENT_STREAM_TEMPLATE (fst (im_size img)) (snd (im_size img)))))
          (CONTENT_STREAM_TEMPLATE (fst (im_size img)) (snd (im_size img)))) @ rest"
    unfolding write_image_page_ready [where Image_open = Image_open and cb = cb, OF r d(1) sz d(2,3)]
    by (auto dest!: write_page_appends simp: object_id_def take_id_def split: option.splits)
  with d show ?thesis
    by auto
qed


theorem stream_lengths_are_exact_witness:
  "write_image_page gray_decoder None ''abcde'' None None None None fresh =
     (Inr 4, snd (write_image_page gray_decoder None ''abcde'' None None None None fresh)) \<and>
   sink_data (sink (snd (write_image_page gray_decoder None ''abcde'' None None None None fresh))) =
     ''%PDF-1.7\<newline>'' @
     image_object_bytes 1 2 3 ''/DeviceGray'' ''/DCTDecode'' 5 ''abcde'' @
     content_object_bytes 2 26 ''q\<newline>2 0 0 3 0 0 cm\<newline>/Img Do\<newline>Q'' @
     image_page_bytes 4 3 ''<< /XObject << /Img 1 0 R >> >>'' [''0'', ''0'', ''2'', ''3''] 2 \<and>
   int (length ''abcde'') = 5 \<and>
   int (length ''q\<newline>2 0 0 3 0 0 cm\<newline>/Img Do\<newline>Q'') = 26 \<and>
   content_object_bytes 2 26 ''q\<newline>2 0 0 3 0 0 cm\<newline>/Img Do\<newline>Q'' =
     ''2 0 obj\<newline><<\<newline>/Length 26\<newline>>>\<newline>stream\<newline>q\<newline>2 0 0 3 0 0 cm\<newline>/Img Do\<newline>Q\<newline>endstream\<newline>endobj\<newline>''"
proof -
  have run: "write_image_page gray_decoder None ''abcde'' None None None None fresh =
     (Inr 4, snd (write_image_page gray_decoder None ''abcde'' None None None None fresh))"
    using image_page_fresh(1) by (simp add: prod_eq_iff)
  from stream_lengths_are_exact [OF run] run show ?thesis
    by (simp add: image_page_fresh(2) image_object_bytes_def content_object_bytes_def
        image_page_bytes_def eval_simps)
qed

subsection \<open>C9: closing twice\<close>

lemma for_each_close: "\<not> out s \<Longrightarrow> for_each (replicate n ()) (\<lambda>_. close) s = (Inr (), s)"
  by (induction n) (simp_all add: close_not_out)

text \<open>
  C9. Closing is idempotent. Let \<open>s\<close> be the writer after a call of \<open>close\<close> that
  returned. Then a second call of \<open>close\<close> returns without an error and leaves the
  whole state as it is: the destination has the same bytes and is not closed again, and no
  field of the writer changes. The same holds for any number \<open>n\<close> of further calls.
\<close>

theorem close_idempotent:
  assumes "close s0 = (Inr (), s)"
  shows "close s = (Inr (), s) \<and> for_each (replicate n ()) (\<lambda>_. close) s = (Inr (), s)"
  using close_success [OF assms] by (simp add: close_not_out for_each_close)

theorem close_idempotent_witness:
  "close fresh = (Inr (), snd (close fresh)) \<and>
   close (snd (close fresh)) = (Inr (), snd (close fresh)) \<and>
   for_each (replicate 3 ()) (\<lambda>_. close) (snd (close fresh)) = (Inr (), snd (close fresh))"
proof -
  have h: "close fresh = (Inr (), snd (close fresh))"
    by (rule close_good_pair) simp
  from close_idempotent [OF h, of 3] h show ?thesis by simp
qed

subsection \<open>C10: \<open>start_object\<close> after close\<close>

text \<open>
  C10. Let \<open>s\<close> be the writer after a call of \<open>close\<close> that returned, on a writer that
  held a destination. Then \<open>start_object\<close> on \<open>s\<close> raises the error of a closed writer
  and appends nothing to the destination, but the cross-reference dictionary of the writer
  afterwards maps the object id (the given one, or the next of the allocator, which is
  consumed) to the current position: the call changed the writer before it failed.
\<close>

theorem start_object_after_close_not_atomic:
  assumes "out s0" and "close s0 = (Inr (), s)"
  shows "fst (start_object oid body s) = Inl (RuntimeError ''PDF writer is closed'') \<and>
         sink (snd (start_object oid body s)) = sink s \<and>
         map_of (xrefs (snd (start_object oid body s))) (object_id oid s) = Some (pos s) \<and>
         id_stream (snd (start_object oid body s)) =
           (case oid of None \<Rightarrow> id_stream s + 1 | Some i \<Rightarrow> id_stream s)"
proof -
  from close_success [OF assms(2)] assms(1) have c: "\<not> out s" "pos s \<noteq> 0" by simp_all
  show ?thesis
    by (simp add: start_object_not_out_state [OF c] update_conv' take_id_def split: option.splits)
qed


theorem start_object_after_close_not_atomic_witness:
  "out fresh \<and> close fresh = (Inr (), snd (close fresh)) \<and>
   fst (start_object (Some 7) (\<lambda>_. ret ()) (snd (close fresh))) =
     Inl (RuntimeError ''PDF writer is closed'') \<and>
   sink (snd (start_object (Some 7) (\<lambda>_. ret ()) (snd (close fresh)))) = sink (snd (close fresh)) \<and>
   map_of (xrefs (snd (close fresh))) 7 = None \<and>
   map_of (xrefs (snd (start_object (Some 7) (\<lambda>_. ret ()) (snd (close fresh))))) 7 = Some 240"
  using start_object_after_close_not_atomic [OF _ closed_fresh(3), of "Some 7" "\<lambda>_. ret ()"]
    closed_fresh(3)
  by (simp add: close_fresh_eval object_id_def)

end
